theory Spec2Isabelle
  imports Main "HOL-Library.Multiset"
begin

section \<open>The execution table and its client\<close>

text \<open>
  The package \<^verbatim>\<open>exec\<close> keeps one row per execution in the SQL table
  \<^verbatim>\<open>execution\<close>. The code reaches the table through a \<^verbatim>\<open>mysql.Client\<close>
  (\<^verbatim>\<open>Insert\<close> for INSERT and UPDATE statements, \<^verbatim>\<open>Select\<close> for
  queries). The client's package is not part of the sources at hand, so the table is an
  explicit value here and every call of the client takes its outcome as a parameter: either
  the statement is carried out, or the call returns an error and leaves the table alone.
  A call through a nil pointer to a client reaches no table at all; what it does instead
  is a parameter too (see \<open>clientDB_Insert\<close>).

  Go's \<^verbatim>\<open>error\<close> values are messages.
\<close>

datatype error = Error string

fun message :: "error \<Rightarrow> string" where
  "message (Error m) = m"

definition ErrorNotPrepared :: string where
  "ErrorNotPrepared = ''exec is not prepared''"

text \<open>
  The status constants are declared in a file of package \<^verbatim>\<open>exec\<close> that is not among
  the sources; the queries of \<^verbatim>\<open>exec.go\<close> spell the finished status
  \<^verbatim>\<open>'finished'\<close>, and the others are named alike.
\<close>

definition StatusCreated :: string where
  "StatusCreated = ''created''"

definition StatusStarted :: string where
  "StatusStarted = ''started''"

definition StatusFailed :: string where
  "StatusFailed = ''failed''"

definition StatusFinished :: string where
  "StatusFinished = ''finished''"

record execution_row =
  row_uuid :: string
  row_status :: string
  row_source :: string
  row_git_ref :: string
  row_type :: string
  started_at :: "nat option"
  finished_at :: "nat option"

text \<open>The three statements \<^verbatim>\<open>exec.go\<close> passes to \<^verbatim>\<open>Client.Insert\<close>,
  with their arguments in the order of the placeholders; the time is what
  \<^verbatim>\<open>CURRENT_TIME\<close> evaluates to.\<close>

datatype statement =
    InsertExecution string string string string string
  | UpdateStarted nat string string
  | UpdateFinished nat string string

record database =
  table_rows :: "execution_row list"
  received :: "statement list"

fun run_statement :: "statement \<Rightarrow> execution_row list \<Rightarrow> execution_row list" where
  "run_statement (InsertExecution u st src ref ty) rs =
     rs @ [\<lparr>row_uuid = u, row_status = st, row_source = src, row_git_ref = ref,
            row_type = ty, started_at = None, finished_at = None\<rparr>]"
| "run_statement (UpdateStarted now st u) rs =
     map (\<lambda>r. if row_uuid r = u then r\<lparr>started_at := Some now, row_status := st\<rparr> else r) rs"
| "run_statement (UpdateFinished now st u) rs =
     map (\<lambda>r. if row_uuid r = u then r\<lparr>finished_at := Some now, row_status := st\<rparr> else r) rs"

text \<open>\<^verbatim>\<open>Client.Insert(query, args...)\<close>: the first argument is the outcome of the
  call (\<open>None\<close>: the statement is carried out).\<close>

fun client_Insert :: "error option \<Rightarrow> statement \<Rightarrow> database \<Rightarrow> error option \<times> database" where
  "client_Insert (Some err) q db = (Some err, db\<lparr>received := received db @ [q]\<rparr>)"
| "client_Insert None q db =
     (None, db\<lparr>table_rows := run_statement q (table_rows db), received := received db @ [q]\<rparr>)"

text \<open>\<^verbatim>\<open>Client.Select\<close> with the query of \<^verbatim>\<open>Exists\<close>:
  \<^verbatim>\<open>SELECT uuid FROM execution WHERE status = ? AND git_ref = ? AND type = ? AND source = ?\<close>.
  The result is the cursor's rows.\<close>

fun client_Select_uuid ::
  "error option \<Rightarrow> string \<Rightarrow> string \<Rightarrow> string \<Rightarrow> string \<Rightarrow> database \<Rightarrow> error + string list" where
  "client_Select_uuid (Some err) status gitRef typeOf source db = Inl err"
| "client_Select_uuid None status gitRef typeOf source db =
     Inr (map row_uuid (filter (\<lambda>r. row_status r = status \<and> row_git_ref r = gitRef \<and>
                                   row_type r = typeOf \<and> row_source r = source) (table_rows db)))"

text \<open>\<^verbatim>\<open>result.Next()\<close> on a fresh cursor: is there a first row.\<close>

definition cursor_Next :: "string list \<Rightarrow> bool" where
  "cursor_Next result = (result \<noteq> [])"

text \<open>\<^verbatim>\<open>func Exists(clientDB, gitRef, source, typeOf, status string) (bool, error)\<close>\<close>

definition Exists ::
  "error option \<Rightarrow> database \<Rightarrow> string \<Rightarrow> string \<Rightarrow> string \<Rightarrow> string \<Rightarrow> bool \<times> error option" where
  "Exists sel clientDB gitRef source typeOf status =
     (case client_Select_uuid sel status gitRef typeOf source clientDB of
        Inl err \<Rightarrow> (False, Some err)
      | Inr result \<Rightarrow> (cursor_Next result, None))"

section \<open>The life cycle of one execution\<close>

text \<open>
  The fields of \<^verbatim>\<open>Exec\<close> that \<^verbatim>\<open>Prepare\<close> and \<^verbatim>\<open>Execute\<close>
  read or write. \<open>infraTags\<close> is the map last handed to \<^verbatim>\<open>Infra.SetTags\<close> and
  \<open>ExtraVars\<close> is \<^verbatim>\<open>AnsibleConfig.ExtraVars\<close>. \<open>clientDB\<close> is the pointer
  \<^verbatim>\<open>clientDB *mysql.Client\<close>: \<open>None\<close> is nil, which is what \<^verbatim>\<open>NewExec\<close>
  sets, and a client stands for the connection to the table that is passed along with
  the \<^verbatim>\<open>Exec\<close>.
\<close>

datatype mysql_Client = Client

record Exec =
  UUID :: string
  Source :: string
  GitRef :: string
  typeOf :: string
  clientDB :: "mysql_Client option"
  dirPath :: string
  prepared :: bool
  configPath :: string
  infraTags :: "string \<rightharpoonup> string"
  ExtraVars :: "string \<rightharpoonup> string"

definition keyExecUUID :: string where
  "keyExecUUID = ''arewefastyet_exec_uuid''"

definition keyExecSource :: string where
  "keyExecSource = ''arewefastyet_source''"

definition keyVitessVersion :: string where
  "keyVitessVersion = ''vitess_git_version''"

text \<open>
  What \<^verbatim>\<open>Client.Insert\<close> does when its receiver is nil. Its body is not among
  the sources: it may return (with or without an error) or panic on reading its receiver.
\<close>

datatype nil_receiver = NilReturns "error option" | NilPanics

text \<open>
  \<^verbatim>\<open>e.clientDB.Insert(query, args...)\<close>: through a client the statement goes to
  the store, whose outcome is \<open>outcome\<close>; through nil nothing reaches the store. \<open>None\<close>
  says that the call panics.
\<close>

definition clientDB_Insert ::
  "mysql_Client option \<Rightarrow> nil_receiver \<Rightarrow> error option \<Rightarrow> statement \<Rightarrow> database \<Rightarrow>
   (error option \<times> database) option" where
  "clientDB_Insert c onNil outcome q db =
     (case c of
        Some client \<Rightarrow> Some (client_Insert outcome q db)
      | None \<Rightarrow>
         (case onNil of
            NilPanics \<Rightarrow> None
          | NilReturns err \<Rightarrow> Some (err, db)))"

text \<open>
  What the calls of \<^verbatim>\<open>Prepare\<close> into other packages return, in the order of the
  calls: \<^verbatim>\<open>mysql.New\<close>, the INSERT, \<^verbatim>\<open>git.ShortenSHA\<close>,
  \<^verbatim>\<open>prepareDirectories\<close> (with the directory it creates), \<^verbatim>\<open>Infra.Prepare\<close>,
  \<^verbatim>\<open>viper.ConfigFileUsed\<close> and the variables that
  \<^verbatim>\<open>statsRemoteDBConfig.AddToAnsible\<close> adds to the emptied \<^verbatim>\<open>ExtraVars\<close>.
  \<^verbatim>\<open>mysql.New\<close> returns a client, or nil together with its error.
\<close>

record prepare_env =
  mysqlNew :: "error option"
  insertCreated :: "error option"
  ShortenSHA :: "string \<Rightarrow> string"
  prepareDirectories :: "error + string"
  infraPrepare :: "error option"
  ConfigFileUsed :: string
  AddToAnsible :: "string \<rightharpoonup> string"

text \<open>\<^verbatim>\<open>func (e *Exec) Prepare() error\<close>: the error returned, the \<^verbatim>\<open>Exec\<close>
  and the database afterwards.\<close>

definition Prepare :: "prepare_env \<Rightarrow> Exec \<Rightarrow> database \<Rightarrow> error option \<times> Exec \<times> database" where
  "Prepare env e db =
     (if prepared e then (None, e, db)
      else case mysqlNew env of
        Some err \<Rightarrow> (Some err, e\<lparr>clientDB := None\<rparr>, db)
      | None \<Rightarrow>
         (case client_Insert (insertCreated env)
                 (InsertExecution (UUID e) StatusCreated (Source e) (GitRef e) (typeOf e)) db of
            (Some err, db1) \<Rightarrow> (Some err, e\<lparr>clientDB := Some Client\<rparr>, db1)
          | (None, db1) \<Rightarrow>
             (let e1 = e\<lparr>clientDB := Some Client,
                        infraTags := [''execution_git_ref'' \<mapsto> ShortenSHA env (GitRef e),
                                         ''execution_source'' \<mapsto> Source e]\<rparr>
              in case prepareDirectories env of
                   Inl err \<Rightarrow> (Some err, e1, db1)
                 | Inr dir \<Rightarrow>
                    (let e2 = e1\<lparr>dirPath := dir\<rparr>
                     in case infraPrepare env of
                          Some err \<Rightarrow> (Some err, e2, db1)
                        | None \<Rightarrow>
                           (None,
                            e2\<lparr>configPath := (if configPath e2 = [] then ConfigFileUsed env
                                               else configPath e2),
                               ExtraVars := AddToAnsible env,
                               prepared := True\<rparr>,
                            db1)))))"

text \<open>
  A call into the infrastructure returns nil, returns an error, or panics.
\<close>

datatype call = Ok | Fails error | Panics

text \<open>
  What the calls of \<^verbatim>\<open>Execute\<close> return, in the order of the calls: the UPDATE to
  started and its \<^verbatim>\<open>CURRENT_TIME\<close>, \<^verbatim>\<open>provision\<close> (its IPs only flow into
  \<^verbatim>\<open>AddIPsToFiles\<close>), \<^verbatim>\<open>ansible.AddIPsToFiles\<close>,
  \<^verbatim>\<open>ansible.AddLocalConfigPathToFiles\<close>, \<^verbatim>\<open>Infra.Run\<close>, and the deferred
  UPDATE with its \<^verbatim>\<open>CURRENT_TIME\<close>. The outcomes of the two updates are those of
  the store, for an \<^verbatim>\<open>Exec\<close> that has a client; \<open>nilInsert\<close> is what
  \<^verbatim>\<open>Insert\<close> does for one whose \<^verbatim>\<open>clientDB\<close> is nil.
\<close>

record execute_env =
  nilInsert :: nil_receiver
  updateStarted :: "error option"
  startedTime :: nat
  provision :: call
  AddIPsToFiles :: call
  AddLocalConfigPathToFiles :: call
  infraRun :: call
  updateFinished :: "error option"
  finishedTime :: nat

text \<open>How a call of \<^verbatim>\<open>Execute\<close> ends: it returns its \<^verbatim>\<open>err\<close>, or a panic
  leaves it.\<close>

datatype exit = Return "error option" | Panic

text \<open>The body of \<^verbatim>\<open>Execute\<close> below the \<^verbatim>\<open>defer\<close>.\<close>

definition Execute_body :: "execute_env \<Rightarrow> Exec \<Rightarrow> database \<Rightarrow> exit \<times> Exec \<times> database" where
  "Execute_body env e db =
     (if \<not> prepared e then (Return (Some (Error ErrorNotPrepared)), e, db)
      else case clientDB_Insert (clientDB e) (nilInsert env) (updateStarted env)
                  (UpdateStarted (startedTime env) StatusStarted (UUID e)) db of
        None \<Rightarrow> (Panic, e, db)
      | Some (Some err, db1) \<Rightarrow> (Return (Some err), e, db1)
      | Some (None, db1) \<Rightarrow>
         (case provision env of
            Panics \<Rightarrow> (Panic, e, db1)
          | Fails err \<Rightarrow> (Return (Some err), e, db1)
          | Ok \<Rightarrow>
             (case AddIPsToFiles env of
                Panics \<Rightarrow> (Panic, e, db1)
              | Fails err \<Rightarrow> (Return (Some err), e, db1)
              | Ok \<Rightarrow>
                 (case AddLocalConfigPathToFiles env of
                    Panics \<Rightarrow> (Panic, e, db1)
                  | Fails err \<Rightarrow> (Return (Some err), e, db1)
                  | Ok \<Rightarrow>
                     (let e1 = e\<lparr>ExtraVars := (ExtraVars e)
                                   (keyExecUUID \<mapsto> UUID e, keyVitessVersion \<mapsto> GitRef e,
                                    keyExecSource \<mapsto> Source e)\<rparr>
                      in case infraRun env of
                           Panics \<Rightarrow> (Panic, e1, db1)
                         | Fails err \<Rightarrow> (Return (Some err), e1, db1)
                         | Ok \<Rightarrow> (Return None, e1, db1))))))"

text \<open>
  The named result \<^verbatim>\<open>err\<close> as the deferred function reads it. Every step that
  yields an error returns it at once, so when a step panics \<^verbatim>\<open>err\<close> still holds
  nil.
\<close>

fun named_result :: "exit \<Rightarrow> error option" where
  "named_result (Return err) = err"
| "named_result Panic = None"

definition terminal_status :: "exit \<Rightarrow> string" where
  "terminal_status x = (if named_result x \<noteq> None then StatusFailed else StatusFinished)"

text \<open>\<^verbatim>\<open>func (e *Exec) Execute() (err error)\<close>: the deferred function runs on every
  way out of the body, calls \<^verbatim>\<open>e.clientDB.Insert\<close> whatever \<^verbatim>\<open>clientDB\<close> is,
  and discards what the call returns. If the call panics, the panic leaves
  \<^verbatim>\<open>Execute\<close> in place of the return.\<close>

definition Execute :: "execute_env \<Rightarrow> Exec \<Rightarrow> database \<Rightarrow> exit \<times> Exec \<times> database" where
  "Execute env e db =
     (case Execute_body env e db of
        (x, e1, db1) \<Rightarrow>
          (case clientDB_Insert (clientDB e) (nilInsert env) (updateFinished env)
                  (UpdateFinished (finishedTime env) (terminal_status x) (UUID e)) db1 of
             None \<Rightarrow> (Panic, e1, db1)
           | Some (r, db2) \<Rightarrow> (x, e1, db2)))"

section \<open>The server's execution queue\<close>

text \<open>
  The declarations of \<^verbatim>\<open>executionIdentifier\<close>, \<^verbatim>\<open>executionQueueElement\<close>,
  \<^verbatim>\<open>queue\<close>, \<^verbatim>\<open>currentCountExec\<close> and \<^verbatim>\<open>maxConcurJob\<close> are not
  among the sources; the fields below are the ones the functions of the server use
  (\<open>elementIdentifier\<close> is the element's field \<^verbatim>\<open>identifier\<close>). Go's
  \<^verbatim>\<open>int\<close> is \<open>int\<close> here: \<^verbatim>\<open>retry\<close> is decremented only while it is at
  least 0 and the counter is incremented only below \<^verbatim>\<open>maxConcurJob\<close>, so neither
  reaches the end of its range.
\<close>

record executionIdentifier =
  id_GitRef :: string
  id_Source :: string
  BenchmarkType :: string
  PlannerVersion :: string
  PullNb :: int

record executionQueueElement =
  config :: string
  elementIdentifier :: executionIdentifier
  retry :: int
  executing :: bool
  compareWith :: "executionIdentifier list"
  notifyAlways :: bool

text \<open>
  The queue maps an identifier to a pointer to its element, and the goroutines hold such
  pointers: \<open>elements\<close> is the memory the pointers refer to.
\<close>

type_synonym ref = nat

record server =
  elements :: "ref \<Rightarrow> executionQueueElement"
  queue :: "executionIdentifier \<rightharpoonup> ref"
  currentCountExec :: int

subsection \<open>checkIfExecutionExists\<close>

text \<open>
  The loop of \<^verbatim>\<open>checkIfExecutionExists\<close> over its list of statuses. \<open>macro\<close> stands
  for \<^verbatim>\<open>exec.ExistsMacrobenchmark\<close>, which is not among the sources, and \<open>sel\<close>
  gives the outcome of the select made for a status.
\<close>

fun checkStatus ::
  "(database \<Rightarrow> string \<Rightarrow> string \<Rightarrow> string \<Rightarrow> string \<Rightarrow> string \<Rightarrow> bool \<times> error option) \<Rightarrow>
   (string \<Rightarrow> error option) \<Rightarrow> database \<Rightarrow> executionIdentifier \<Rightarrow> string list \<Rightarrow>
   bool \<times> error option" where
  "checkStatus macro sel dbClient ident [] = (False, None)"
| "checkStatus macro sel dbClient ident (status # rest) =
     (case (if BenchmarkType ident = ''micro''
            then Exists (sel status) dbClient (id_GitRef ident) (id_Source ident)
                   (BenchmarkType ident) status
            else macro dbClient (id_GitRef ident) (id_Source ident) (BenchmarkType ident)
                   status (PlannerVersion ident)) of
        (exists, Some err) \<Rightarrow> (False, Some err)
      | (exists, None) \<Rightarrow>
          if exists then (True, None) else checkStatus macro sel dbClient ident rest)"

definition checkIfExecutionExists ::
  "(database \<Rightarrow> string \<Rightarrow> string \<Rightarrow> string \<Rightarrow> string \<Rightarrow> string \<Rightarrow> bool \<times> error option) \<Rightarrow>
   (string \<Rightarrow> error option) \<Rightarrow> database \<Rightarrow> executionIdentifier \<Rightarrow> bool \<times> error option" where
  "checkIfExecutionExists macro sel dbClient ident =
     checkStatus macro sel dbClient ident [StatusFinished]"

subsection \<open>executeSingle\<close>

text \<open>
  What the calls of \<^verbatim>\<open>executeSingle\<close> on the \<^verbatim>\<open>Exec\<close> return:
  \<^verbatim>\<open>exec.NewExecWithConfig\<close>, \<^verbatim>\<open>Prepare\<close>, \<^verbatim>\<open>SetOutputToDefaultPath\<close>,
  \<^verbatim>\<open>ExecuteWithTimeout\<close> and, in the deferred function, \<^verbatim>\<open>Success\<close>.
\<close>

record single_env =
  NewExecWithConfig :: "error option"
  callPrepare :: "error option"
  callSetOutputToDefaultPath :: "error option"
  callExecuteWithTimeout :: "error option"
  callSuccess :: "error option"

definition executeSingle :: "single_env \<Rightarrow> string \<Rightarrow> executionIdentifier \<Rightarrow> error option" where
  "executeSingle env cfg ident =
     (case NewExecWithConfig env of
        Some err \<Rightarrow> Some err
      | None \<Rightarrow>
         (let err =
            (case callPrepare env of
               Some e1 \<Rightarrow> Some (Error (''prepare step error: '' @ message e1))
             | None \<Rightarrow>
                (case callSetOutputToDefaultPath env of
                   Some e2 \<Rightarrow> Some (Error (''prepare outputs step error: '' @ message e2))
                 | None \<Rightarrow>
                    (case callExecuteWithTimeout env of
                       Some e3 \<Rightarrow> Some (Error (''execution step error: '' @ message e3))
                     | None \<Rightarrow> None)))
          in case callSuccess env of
               Some errSuccess \<Rightarrow> Some errSuccess
             | None \<Rightarrow> map_option (\<lambda>e. Error (message e)) err))"

subsection \<open>executeElement\<close>

definition decrementNumberOfOnGoingExecution :: "server \<Rightarrow> server" where
  "decrementNumberOfOnGoingExecution s = s\<lparr>currentCountExec := currentCountExec s - 1\<rparr>"

text \<open>\<^verbatim>\<open>delete(queue, element.identifier)\<close>\<close>

definition deleteFromQueue :: "ref \<Rightarrow> server \<Rightarrow> server" where
  "deleteFromQueue element s = s\<lparr>queue := (queue s)(elementIdentifier (elements s element) := None)\<rparr>"

text \<open>The branch \<^verbatim>\<open>element.retry < 0\<close> up to the decrement: the element is deleted
  when the lookup finds its identifier.\<close>

definition removeIfFound :: "ref \<Rightarrow> server \<Rightarrow> server" where
  "removeIfFound element s =
     (if queue s (elementIdentifier (elements s element)) \<noteq> None then deleteFromQueue element s else s)"

text \<open>\<^verbatim>\<open>element.retry -= 1\<close>\<close>

definition decrementRetry :: "ref \<Rightarrow> server \<Rightarrow> server" where
  "decrementRetry element s =
     s\<lparr>elements := (elements s)(element := (elements s element)\<lparr>retry := retry (elements s element) - 1\<rparr>)\<rparr>"

text \<open>
  What a call of \<^verbatim>\<open>executeElement\<close> does besides changing the shared state: it
  calls \<^verbatim>\<open>executeSingle\<close>, and it starts the goroutine that compares the element.
\<close>

datatype effect = ExecuteSingle string executionIdentifier | GoCompare ref

text \<open>
  \<^verbatim>\<open>func (s *Server) executeElement(element *executionQueueElement)\<close>, run on its own.
  \<open>envs k\<close> is what the \<open>k\<close>-th call of \<^verbatim>\<open>executeSingle\<close> meets, \<open>n\<close> the number of
  calls made so far.
\<close>

function executeElement :: "(nat \<Rightarrow> single_env) \<Rightarrow> nat \<Rightarrow> ref \<Rightarrow> server \<Rightarrow> server \<times> effect list" where
  "executeElement envs n element s =
     (if retry (elements s element) < 0 then
        (decrementNumberOfOnGoingExecution (removeIfFound element s), [])
      else
        (case executeSingle (envs n) (config (elements s element))
                (elementIdentifier (elements s element)) of
           Some err \<Rightarrow>
             (case executeElement envs (Suc n) element (decrementRetry element s) of
                (s', effects) \<Rightarrow>
                  (s', ExecuteSingle (config (elements s element))
                         (elementIdentifier (elements s element)) # effects))
         | None \<Rightarrow>
             (decrementNumberOfOnGoingExecution s,
              [ExecuteSingle (config (elements s element)) (elementIdentifier (elements s element)),
               GoCompare element])))"
  by pat_completeness auto
termination
  by (relation "measure (\<lambda>(envs, n, element, s). nat (retry (elements s element) + 1))")
    (auto simp: decrementRetry_def)

declare executeElement.simps [simp del]

subsection \<open>cronExecutionQueueWatcher\<close>

text \<open>
  \<^verbatim>\<open>for _, element := range queue\<close> visits the keys of the map in an order that Go
  leaves open; \<open>order\<close> is the order of one visit. The loop stops at the first element
  that is not executing.
\<close>

fun firstNotExecuting :: "server \<Rightarrow> executionIdentifier list \<Rightarrow> ref option" where
  "firstNotExecuting s [] = None"
| "firstNotExecuting s (k # order) =
     (case queue s k of
        None \<Rightarrow> firstNotExecuting s order
      | Some element \<Rightarrow>
          if \<not> executing (elements s element) then Some element
          else firstNotExecuting s order)"

text \<open>
  One round of the loop of \<^verbatim>\<open>cronExecutionQueueWatcher\<close>, from \<^verbatim>\<open>mtx.Lock()\<close>
  to \<^verbatim>\<open>mtx.Unlock()\<close>: the state afterwards and the element handed to
  \<^verbatim>\<open>go s.executeElement(element)\<close>, if any.
\<close>

definition cronExecutionQueueWatcher ::
  "int \<Rightarrow> executionIdentifier list \<Rightarrow> server \<Rightarrow> server \<times> ref option" where
  "cronExecutionQueueWatcher maxConcurJob order s =
     (if currentCountExec s \<ge> maxConcurJob then (s, None)
      else case firstNotExecuting s order of
        None \<Rightarrow> (s, None)
      | Some element \<Rightarrow>
          (s\<lparr>currentCountExec := currentCountExec s + 1,
             elements := (elements s)(element := (elements s element)\<lparr>executing := True\<rparr>)\<rparr>,
           Some element))"

subsection \<open>The goroutines\<close>

text \<open>
  The watcher and the goroutines it starts share the queue and the counter, and change
  them only between \<^verbatim>\<open>mtx.Lock()\<close> and \<^verbatim>\<open>mtx.Unlock()\<close>. A goroutine started by
  the watcher is at the head of \<^verbatim>\<open>executeElement\<close> (at first, and again after each
  failed attempt) or before its call of \<^verbatim>\<open>decrementNumberOfOnGoingExecution\<close>; the
  goroutine started after a success runs \<^verbatim>\<open>compareElement\<close> and then deletes the
  element from the queue.
\<close>

datatype goroutine = AtExecuteElement ref | AtDecrement | AtCompareElement ref

fun inFlight :: "goroutine \<Rightarrow> bool" where
  "inFlight (AtCompareElement element) = False"
| "inFlight g = True"

text \<open>One step of the watcher or of one goroutine, in any order.\<close>

inductive step :: "int \<Rightarrow> server \<times> goroutine multiset \<Rightarrow> server \<times> goroutine multiset \<Rightarrow> bool"
  for maxConcurJob :: int where
  watcher_idle:
    "cronExecutionQueueWatcher maxConcurJob order s = (s', None) \<Longrightarrow>
     set order = dom (queue s) \<Longrightarrow>
     step maxConcurJob (s, G) (s', G)"
| watcher_dispatch:
    "cronExecutionQueueWatcher maxConcurJob order s = (s', Some element) \<Longrightarrow>
     set order = dom (queue s) \<Longrightarrow>
     step maxConcurJob (s, G) (s', add_mset (AtExecuteElement element) G)"
| retries_exhausted:
    "AtExecuteElement element \<in># G \<Longrightarrow> retry (elements s element) < 0 \<Longrightarrow>
     step maxConcurJob (s, G)
       (removeIfFound element s, add_mset AtDecrement (G - {#AtExecuteElement element#}))"
| attempt_failed:
    "AtExecuteElement element \<in># G \<Longrightarrow> \<not> retry (elements s element) < 0 \<Longrightarrow>
     executeSingle env (config (elements s element)) (elementIdentifier (elements s element)) = Some err \<Longrightarrow>
     step maxConcurJob (s, G) (decrementRetry element s, G)"
| attempt_succeeded:
    "AtExecuteElement element \<in># G \<Longrightarrow> \<not> retry (elements s element) < 0 \<Longrightarrow>
     executeSingle env (config (elements s element)) (elementIdentifier (elements s element)) = None \<Longrightarrow>
     step maxConcurJob (s, G)
       (s, add_mset AtDecrement (add_mset (AtCompareElement element)
             (G - {#AtExecuteElement element#})))"
| decrement:
    "AtDecrement \<in># G \<Longrightarrow>
     step maxConcurJob (s, G) (decrementNumberOfOnGoingExecution s, G - {#AtDecrement#})"
| compared:
    "AtCompareElement element \<in># G \<Longrightarrow>
     step maxConcurJob (s, G) (deleteFromQueue element s, G - {#AtCompareElement element#})"

subsection \<open>compareElement\<close>

text \<open>
  The arguments of one call of \<^verbatim>\<open>sendNotificationForRegression\<close>, in the order of the
  call.
\<close>

datatype notification = Notification string string string string string string int bool

text \<open>
  \<^verbatim>\<open>exec.GetFinishedExecution\<close> and \<^verbatim>\<open>sendNotificationForRegression\<close> are not
  among the sources. \<open>GetFinishedExecution env t comparer\<close> is what the lookup of
  \<open>comparer\<close> returns in the \<open>t\<close>-th round of polling (an empty UUID: no finished
  execution found), and \<open>sendNotification env t n\<close> what sending \<open>n\<close> returns then.
\<close>

record compare_env =
  GetFinishedExecution :: "nat \<Rightarrow> executionIdentifier \<Rightarrow> error + string"
  sendNotification :: "nat \<Rightarrow> notification \<Rightarrow> error option"

definition notificationFor :: "executionQueueElement \<Rightarrow> executionIdentifier \<Rightarrow> notification" where
  "notificationFor element comparer =
     Notification (id_Source (elementIdentifier element)) (id_Source comparer)
       (id_GitRef (elementIdentifier element)) (id_GitRef comparer)
       (PlannerVersion (elementIdentifier element)) (BenchmarkType (elementIdentifier element))
       (PullNb (elementIdentifier element)) (notifyAlways element)"

text \<open>
  The inner loop \<^verbatim>\<open>for _, comparer := range element.compareWith\<close> of round \<open>t\<close>, from
  the counter \<open>done\<close> and the notifications \<open>sent\<close> so far: \<open>Inl\<close> when an error makes
  \<^verbatim>\<open>compareElement\<close> return, \<open>Inr\<close> with the new counter otherwise.
\<close>

fun compareRound ::
  "compare_env \<Rightarrow> nat \<Rightarrow> executionQueueElement \<Rightarrow> executionIdentifier list \<Rightarrow> int \<Rightarrow>
   notification list \<Rightarrow> notification list + int \<times> notification list" where
  "compareRound env t element [] done sent = Inr (done, sent)"
| "compareRound env t element (comparer # rest) done sent =
     (case GetFinishedExecution env t comparer of
        Inl err \<Rightarrow> Inl sent
      | Inr comparerUUID \<Rightarrow>
          if comparerUUID \<noteq> [] then
            (case sendNotification env t (notificationFor element comparer) of
               Some err \<Rightarrow> Inl (sent @ [notificationFor element comparer])
             | None \<Rightarrow>
                 compareRound env t element rest (done + 1)
                   (sent @ [notificationFor element comparer]))
          else compareRound env t element rest done sent)"

text \<open>How \<^verbatim>\<open>compareElement\<close> returns: its loop ends, or an error makes it return.\<close>

datatype returned = LoopEnded | ReturnedOnError

text \<open>
  The outer loop \<^verbatim>\<open>for done != len(element.compareWith)\<close>. It has no bound of its
  own, so the function takes the number of rounds it may poll: \<open>None\<close> says that the loop
  is still polling after that many rounds. The counter \<^verbatim>\<open>done\<close> is an \<open>int\<close>; it
  grows by at most the number of targets in a round.
\<close>

fun compareLoop ::
  "compare_env \<Rightarrow> nat \<Rightarrow> nat \<Rightarrow> executionQueueElement \<Rightarrow> int \<Rightarrow> notification list \<Rightarrow>
   (returned \<times> notification list) option" where
  "compareLoop env 0 t element done sent =
     (if done \<noteq> int (length (compareWith element)) then None else Some (LoopEnded, sent))"
| "compareLoop env (Suc rounds) t element done sent =
     (if done \<noteq> int (length (compareWith element)) then
        (case compareRound env t element (compareWith element) done sent of
           Inl sent' \<Rightarrow> Some (ReturnedOnError, sent')
         | Inr (done', sent') \<Rightarrow> compareLoop env rounds (Suc t) element done' sent')
      else Some (LoopEnded, sent))"

definition compareElement ::
  "compare_env \<Rightarrow> nat \<Rightarrow> executionQueueElement \<Rightarrow> (returned \<times> notification list) option" where
  "compareElement env rounds element = compareLoop env rounds 0 element 0 []"

section \<open>Properties\<close>

subsection \<open>Exists\<close>

lemma Exists_select_ok:
  "Exists None db gitRef source ty status =
     (\<exists>r \<in> set (table_rows db). row_status r = status \<and> row_git_ref r = gitRef \<and>
         row_type r = ty \<and> row_source r = source, None)"
  by (auto simp: Exists_def cursor_Next_def filter_empty_conv)

text \<open>
  Claim C9. When the select succeeds and no row of the table matches the status, git
  reference, type and source asked for, \<open>Exists\<close> returns \<open>(false, nil)\<close>; when the
  select fails, it returns \<open>false\<close> with the store's error.
\<close>

theorem Exists_no_rows_or_error:
  "(filter (\<lambda>r. row_status r = status \<and> row_git_ref r = gitRef \<and> row_type r = ty \<and>
               row_source r = source) (table_rows db) = []
      \<longrightarrow> Exists None db gitRef source ty status = (False, None)) \<and>
   Exists (Some err) db gitRef source ty status = (False, Some err)"
  by (simp add: Exists_def cursor_Next_def)

theorem Exists_no_rows_or_error_witness:
  "Exists None
     \<lparr>table_rows = [\<lparr>row_uuid = ''u1'', row_status = ''started'', row_source = ''cron'',
                     row_git_ref = ''abc123'', row_type = ''micro'', started_at = Some 4,
                     finished_at = None\<rparr>], received = []\<rparr>
     ''abc123'' ''cron'' ''micro'' StatusFinished = (False, None) \<and>
   Exists (Some (Error ''connection refused''))
     \<lparr>table_rows = [], received = []\<rparr> ''abc123'' ''cron'' ''micro'' StatusFinished
     = (False, Some (Error ''connection refused''))"
  using Exists_no_rows_or_error [of StatusFinished "''abc123''" "''micro''" "''cron''"
      "\<lparr>table_rows = [\<lparr>row_uuid = ''u1'', row_status = ''started'', row_source = ''cron'',
                     row_git_ref = ''abc123'', row_type = ''micro'', started_at = Some 4,
                     finished_at = None\<rparr>], received = []\<rparr>" "Error ''connection refused''"]
    Exists_no_rows_or_error [of StatusFinished "''abc123''" "''micro''" "''cron''"
      "\<lparr>table_rows = [], received = []\<rparr>" "Error ''connection refused''"]
  by (simp add: StatusFinished_def)

subsection \<open>Execute\<close>

lemma Execute_body_exit:
  "clientDB e = Some c \<Longrightarrow> Execute_body env e db = (x, e1, db1) \<Longrightarrow>
     (x = Return None) =
       (prepared e \<and> updateStarted env = None \<and> provision env = Ok \<and> AddIPsToFiles env = Ok \<and>
        AddLocalConfigPathToFiles env = Ok \<and> infraRun env = Ok)"
  by (cases "updateStarted env"; cases "provision env"; cases "AddIPsToFiles env";
      cases "AddLocalConfigPathToFiles env"; cases "infraRun env")
    (auto simp: Execute_body_def clientDB_Insert_def Let_def split: if_splits)

lemma Execute_body_no_client:
  "clientDB e = None \<Longrightarrow> snd (snd (Execute_body env e db)) = db"
  by (cases "nilInsert env"; cases "provision env"; cases "AddIPsToFiles env";
      cases "AddLocalConfigPathToFiles env"; cases "infraRun env")
    (auto simp: Execute_body_def clientDB_Insert_def Let_def split: option.splits)

lemma Execute_with_client:
  "clientDB e = Some c \<Longrightarrow>
     Execute env e db =
       (fst (Execute_body env e db), fst (snd (Execute_body env e db)),
        snd (client_Insert (updateFinished env)
               (UpdateFinished (finishedTime env) (terminal_status (fst (Execute_body env e db)))
                  (UUID e))
               (snd (snd (Execute_body env e db)))))"
  by (cases "Execute_body env e db"; cases "updateFinished env")
    (simp_all add: Execute_def clientDB_Insert_def)

text \<open>
  Claim C1, as the code has it. For an \<open>Exec\<close> that has a database client, the last
  statement sent to the store on every way out of \<open>Execute\<close> is the deferred UPDATE for
  the run's UUID with its finishing time: with status finished when \<open>Execute\<close> returns nil,
  which it does exactly when the \<open>Exec\<close> is prepared and every step succeeds, and with
  status failed when it returns an error; after a panic of a step the UPDATE is sent as
  well, with one of these two statuses. When the store carries that UPDATE out, every row
  of the run has the status sent and its finishing time, and none is left in started. The
  error of a refused UPDATE is discarded: the rows then stay as the body of \<open>Execute\<close>
  left them. For an \<open>Exec\<close> without a client nothing reaches the store.
\<close>

theorem Execute_terminal_update:
  "Execute env e db = (x, e', db') \<Longrightarrow>
     (clientDB e \<noteq> None \<longrightarrow>
        ((x = Return None) =
           (prepared e \<and> updateStarted env = None \<and> provision env = Ok \<and>
            AddIPsToFiles env = Ok \<and> AddLocalConfigPathToFiles env = Ok \<and> infraRun env = Ok)) \<and>
        (x = Return None \<longrightarrow>
           last (received db') = UpdateFinished (finishedTime env) StatusFinished (UUID e)) \<and>
        (\<forall>err. x = Return (Some err) \<longrightarrow>
           last (received db') = UpdateFinished (finishedTime env) StatusFailed (UUID e)) \<and>
        (x = Panic \<longrightarrow>
           last (received db') = UpdateFinished (finishedTime env) StatusFinished (UUID e) \<or>
           last (received db') = UpdateFinished (finishedTime env) StatusFailed (UUID e)) \<and>
        (updateFinished env = None \<longrightarrow>
           (\<forall>r \<in> set (table_rows db'). row_uuid r = UUID e \<longrightarrow>
              (x = Return None \<longrightarrow> row_status r = StatusFinished) \<and>
              (\<forall>err. x = Return (Some err) \<longrightarrow> row_status r = StatusFailed) \<and>
              (row_status r = StatusFinished \<or> row_status r = StatusFailed) \<and>
              row_status r \<noteq> StatusStarted \<and>
              finished_at r = Some (finishedTime env))) \<and>
        (updateFinished env \<noteq> None \<longrightarrow>
           table_rows db' = table_rows (snd (snd (Execute_body env e db))))) \<and>
     (clientDB e = None \<longrightarrow> db' = db)"
proof -
  assume run: "Execute env e db = (x, e', db')"
  have no_client: "clientDB e = None \<longrightarrow> db' = db"
  proof
    assume nil: "clientDB e = None"
    from run nil Execute_body_no_client [OF nil, of env db] show "db' = db"
      by (cases "Execute_body env e db"; cases "nilInsert env")
        (auto simp: Execute_def clientDB_Insert_def)
  qed
  have with_client: "clientDB e \<noteq> None \<longrightarrow>
        ((x = Return None) =
           (prepared e \<and> updateStarted env = None \<and> provision env = Ok \<and>
            AddIPsToFiles env = Ok \<and> AddLocalConfigPathToFiles env = Ok \<and> infraRun env = Ok)) \<and>
        (x = Return None \<longrightarrow>
           last (received db') = UpdateFinished (finishedTime env) StatusFinished (UUID e)) \<and>
        (\<forall>err. x = Return (Some err) \<longrightarrow>
           last (received db') = UpdateFinished (finishedTime env) StatusFailed (UUID e)) \<and>
        (x = Panic \<longrightarrow>
           last (received db') = UpdateFinished (finishedTime env) StatusFinished (UUID e) \<or>
           last (received db') = UpdateFinished (finishedTime env) StatusFailed (UUID e)) \<and>
        (updateFinished env = None \<longrightarrow>
           (\<forall>r \<in> set (table_rows db'). row_uuid r = UUID e \<longrightarrow>
              (x = Return None \<longrightarrow> row_status r = StatusFinished) \<and>
              (\<forall>err. x = Return (Some err) \<longrightarrow> row_status r = StatusFailed) \<and>
              (row_status r = StatusFinished \<or> row_status r = StatusFailed) \<and>
              row_status r \<noteq> StatusStarted \<and>
              finished_at r = Some (finishedTime env))) \<and>
        (updateFinished env \<noteq> None \<longrightarrow>
           table_rows db' = table_rows (snd (snd (Execute_body env e db))))"
  proof
    assume "clientDB e \<noteq> None"
    then obtain c where c: "clientDB e = Some c" by auto
    obtain x1 e1 db1 where body: "Execute_body env e db = (x1, e1, db1)"
      by (cases "Execute_body env e db")
    from run Execute_with_client [OF c, of env db] body
    have x: "x = x1"
      and db': "db' = snd (client_Insert (updateFinished env)
               (UpdateFinished (finishedTime env) (terminal_status x1) (UUID e)) db1)"
      by auto
    note exit = Execute_body_exit [OF c body]
    show "((x = Return None) =
           (prepared e \<and> updateStarted env = None \<and> provision env = Ok \<and>
            AddIPsToFiles env = Ok \<and> AddLocalConfigPathToFiles env = Ok \<and> infraRun env = Ok)) \<and>
        (x = Return None \<longrightarrow>
           last (received db') = UpdateFinished (finishedTime env) StatusFinished (UUID e)) \<and>
        (\<forall>err. x = Return (Some err) \<longrightarrow>
           last (received db') = UpdateFinished (finishedTime env) StatusFailed (UUID e)) \<and>
        (x = Panic \<longrightarrow>
           last (received db') = UpdateFinished (finishedTime env) StatusFinished (UUID e) \<or>
           last (received db') = UpdateFinished (finishedTime env) StatusFailed (UUID e)) \<and>
        (updateFinished env = None \<longrightarrow>
           (\<forall>r \<in> set (table_rows db'). row_uuid r = UUID e \<longrightarrow>
              (x = Return None \<longrightarrow> row_status r = StatusFinished) \<and>
              (\<forall>err. x = Return (Some err) \<longrightarrow> row_status r = StatusFailed) \<and>
              (row_status r = StatusFinished \<or> row_status r = StatusFailed) \<and>
              row_status r \<noteq> StatusStarted \<and>
              finished_at r = Some (finishedTime env))) \<and>
        (updateFinished env \<noteq> None \<longrightarrow>
           table_rows db' = table_rows (snd (snd (Execute_body env e db))))"
      unfolding x db' body using exit
      by (cases "updateFinished env")
        (auto simp: terminal_status_def StatusStarted_def StatusFailed_def StatusFinished_def)
  qed
  from with_client no_client show ?thesis by blast
qed

text \<open>A prepared run whose \<^verbatim>\<open>Infra.Run\<close> returns an error, on a store that carries out
  both updates: \<open>Execute\<close> returns the error and the row ends failed.\<close>

theorem Execute_terminal_update_witness:
  "fst (Execute
     \<lparr>nilInsert = NilPanics, updateStarted = None, startedTime = 1, provision = Ok,
      AddIPsToFiles = Ok, AddLocalConfigPathToFiles = Ok,
      infraRun = Fails (Error ''playbook failed''), updateFinished = None,
      finishedTime = 2\<rparr>
     \<lparr>UUID = ''u1'', Source = ''cron'', GitRef = ''abc123'', typeOf = ''micro'',
      clientDB = Some Client, dirPath = ''/tmp/u1'', prepared = True,
      configPath = ''config.yaml'', infraTags = Map.empty, ExtraVars = Map.empty\<rparr>
     \<lparr>table_rows = [\<lparr>row_uuid = ''u1'', row_status = StatusCreated, row_source = ''cron'',
                     row_git_ref = ''abc123'', row_type = ''micro'', started_at = None,
                     finished_at = None\<rparr>], received = []\<rparr>) = Return (Some (Error ''playbook failed'')) \<and>
   map row_status (table_rows (snd (snd (Execute
     \<lparr>nilInsert = NilPanics, updateStarted = None, startedTime = 1, provision = Ok,
      AddIPsToFiles = Ok, AddLocalConfigPathToFiles = Ok,
      infraRun = Fails (Error ''playbook failed''), updateFinished = None,
      finishedTime = 2\<rparr>
     \<lparr>UUID = ''u1'', Source = ''cron'', GitRef = ''abc123'', typeOf = ''micro'',
      clientDB = Some Client, dirPath = ''/tmp/u1'', prepared = True,
      configPath = ''config.yaml'', infraTags = Map.empty, ExtraVars = Map.empty\<rparr>
     \<lparr>table_rows = [\<lparr>row_uuid = ''u1'', row_status = StatusCreated, row_source = ''cron'',
                     row_git_ref = ''abc123'', row_type = ''micro'', started_at = None,
                     finished_at = None\<rparr>], received = []\<rparr>)))) = [''failed'']"
proof -
  let ?env = "\<lparr>nilInsert = NilPanics, updateStarted = None, startedTime = 1, provision = Ok,
      AddIPsToFiles = Ok, AddLocalConfigPathToFiles = Ok,
      infraRun = Fails (Error ''playbook failed''), updateFinished = None,
      finishedTime = 2\<rparr>"
  let ?e = "\<lparr>UUID = ''u1'', Source = ''cron'', GitRef = ''abc123'', typeOf = ''micro'',
      clientDB = Some Client, dirPath = ''/tmp/u1'', prepared = True,
      configPath = ''config.yaml'', infraTags = Map.empty, ExtraVars = Map.empty\<rparr>"
  let ?db = "\<lparr>table_rows = [\<lparr>row_uuid = ''u1'', row_status = StatusCreated, row_source = ''cron'',
                     row_git_ref = ''abc123'', row_type = ''micro'', started_at = None,
                     finished_at = None\<rparr>], received = []\<rparr>"
  have run: "Execute ?env ?e ?db =
      (fst (Execute ?env ?e ?db), fst (snd (Execute ?env ?e ?db)), snd (snd (Execute ?env ?e ?db)))"
    by simp
  have x: "fst (Execute ?env ?e ?db) = Return (Some (Error ''playbook failed''))"
    by (simp add: Execute_def Execute_body_def clientDB_Insert_def)
  have rows: "map row_uuid (table_rows (snd (snd (Execute ?env ?e ?db)))) = [''u1'']"
    by (simp add: Execute_def Execute_body_def clientDB_Insert_def)
  from Execute_terminal_update [OF run] x
  have "\<forall>r \<in> set (table_rows (snd (snd (Execute ?env ?e ?db)))).
          row_uuid r = ''u1'' \<longrightarrow> row_status r = ''failed''"
    by (simp add: StatusFailed_def)
  with rows have "map row_status (table_rows (snd (snd (Execute ?env ?e ?db)))) = [''failed'']"
    by (cases "table_rows (snd (snd (Execute ?env ?e ?db)))") auto
  with x show ?thesis by simp
qed

text \<open>
  As the specification states it, for every invocation and without the condition on the
  store, the property fails. The first run below is prepared and every step succeeds; the
  store carries out the UPDATE to started and refuses the deferred UPDATE: \<open>Execute\<close>
  returns nil and the run's row stays in started. The second \<open>Exec\<close> was never prepared
  and has no client: \<open>Execute\<close> returns its error and no UPDATE at all reaches the store.
\<close>

theorem Execute_terminal_update_counterexample:
  "fst (Execute
     \<lparr>nilInsert = NilPanics, updateStarted = None, startedTime = 1, provision = Ok,
      AddIPsToFiles = Ok, AddLocalConfigPathToFiles = Ok, infraRun = Ok,
      updateFinished = Some (Error ''connection lost''), finishedTime = 2\<rparr>
     \<lparr>UUID = ''u1'', Source = ''cron'', GitRef = ''abc123'', typeOf = ''micro'',
      clientDB = Some Client, dirPath = ''/tmp/u1'', prepared = True,
      configPath = ''config.yaml'', infraTags = Map.empty, ExtraVars = Map.empty\<rparr>
     \<lparr>table_rows = [\<lparr>row_uuid = ''u1'', row_status = StatusCreated, row_source = ''cron'',
                     row_git_ref = ''abc123'', row_type = ''micro'', started_at = None,
                     finished_at = None\<rparr>], received = []\<rparr>) = Return None \<and>
   table_rows (snd (snd (Execute
     \<lparr>nilInsert = NilPanics, updateStarted = None, startedTime = 1, provision = Ok,
      AddIPsToFiles = Ok, AddLocalConfigPathToFiles = Ok, infraRun = Ok,
      updateFinished = Some (Error ''connection lost''), finishedTime = 2\<rparr>
     \<lparr>UUID = ''u1'', Source = ''cron'', GitRef = ''abc123'', typeOf = ''micro'',
      clientDB = Some Client, dirPath = ''/tmp/u1'', prepared = True,
      configPath = ''config.yaml'', infraTags = Map.empty, ExtraVars = Map.empty\<rparr>
     \<lparr>table_rows = [\<lparr>row_uuid = ''u1'', row_status = StatusCreated, row_source = ''cron'',
                     row_git_ref = ''abc123'', row_type = ''micro'', started_at = None,
                     finished_at = None\<rparr>], received = []\<rparr>))) =
     [\<lparr>row_uuid = ''u1'', row_status = StatusStarted, row_source = ''cron'',
       row_git_ref = ''abc123'', row_type = ''micro'', started_at = Some 1,
       finished_at = None\<rparr>] \<and>
   fst (Execute
     \<lparr>nilInsert = NilReturns (Some (Error ''no connection'')), updateStarted = None,
      startedTime = 1, provision = Ok, AddIPsToFiles = Ok, AddLocalConfigPathToFiles = Ok,
      infraRun = Ok, updateFinished = None, finishedTime = 2\<rparr>
     \<lparr>UUID = ''u1'', Source = ''cron'', GitRef = ''abc123'', typeOf = ''micro'',
      clientDB = None, dirPath = [], prepared = False,
      configPath = ''config.yaml'', infraTags = Map.empty, ExtraVars = Map.empty\<rparr>
     \<lparr>table_rows = [], received = []\<rparr>) = Return (Some (Error ErrorNotPrepared)) \<and>
   received (snd (snd (Execute
     \<lparr>nilInsert = NilReturns (Some (Error ''no connection'')), updateStarted = None,
      startedTime = 1, provision = Ok, AddIPsToFiles = Ok, AddLocalConfigPathToFiles = Ok,
      infraRun = Ok, updateFinished = None, finishedTime = 2\<rparr>
     \<lparr>UUID = ''u1'', Source = ''cron'', GitRef = ''abc123'', typeOf = ''micro'',
      clientDB = None, dirPath = [], prepared = False,
      configPath = ''config.yaml'', infraTags = Map.empty, ExtraVars = Map.empty\<rparr>
     \<lparr>table_rows = [], received = []\<rparr>))) = []"
  by (simp add: Execute_def Execute_body_def clientDB_Insert_def)

text \<open>
  On an \<open>Exec\<close> that is not prepared, \<open>Execute\<close> sends no UPDATE to started on any path:
  no row enters the status started and no starting time is written. With a client (one
  that \<open>Prepare\<close> created before it failed) \<open>Execute\<close> returns \<open>ErrorNotPrepared\<close>, leaves
  the \<open>Exec\<close> as it was, and the one statement it sends is the deferred UPDATE to failed.
  Without a client the store is untouched, and \<open>Execute\<close> returns \<open>ErrorNotPrepared\<close> only
  if \<^verbatim>\<open>Insert\<close> returns on a nil receiver.
\<close>

lemma Execute_not_prepared:
  "\<not> prepared e \<Longrightarrow>
     (clientDB e \<noteq> None \<longrightarrow>
        Execute env e db =
          (Return (Some (Error ErrorNotPrepared)), e,
           snd (client_Insert (updateFinished env)
                  (UpdateFinished (finishedTime env) StatusFailed (UUID e)) db)) \<and>
        received (snd (snd (Execute env e db))) =
          received db @ [UpdateFinished (finishedTime env) StatusFailed (UUID e)]) \<and>
     (clientDB e = None \<longrightarrow>
        Execute env e db =
          (case nilInsert env of
             NilPanics \<Rightarrow> Panic
           | NilReturns r \<Rightarrow> Return (Some (Error ErrorNotPrepared)), e, db)) \<and>
     (\<forall>r \<in> set (table_rows (snd (snd (Execute env e db)))).
        row_status r = StatusStarted \<longrightarrow> r \<in> set (table_rows db)) \<and>
     map started_at (table_rows (snd (snd (Execute env e db)))) = map started_at (table_rows db)"
  by (cases "updateFinished env"; cases "nilInsert env"; cases "clientDB e")
    (auto simp: Execute_def Execute_body_def clientDB_Insert_def terminal_status_def
      StatusStarted_def StatusFailed_def StatusFinished_def)

text \<open>
  Claim C7 fails on the code. The \<open>Exec\<close> below is as \<^verbatim>\<open>NewExec\<close> returns it: not
  prepared, and its \<^verbatim>\<open>clientDB\<close> nil. \<open>Execute\<close> reaches the return of
  \<open>ErrorNotPrepared\<close>, and then the deferred function calls \<^verbatim>\<open>Insert\<close> on the nil
  client. With an \<^verbatim>\<open>Insert\<close> that panics on a nil receiver, the panic leaves
  \<open>Execute\<close> in place of the error; the store is untouched.
\<close>

theorem Execute_never_prepared_panics:
  "Execute
     \<lparr>nilInsert = NilPanics, updateStarted = None,
      startedTime = 1, provision = Ok, AddIPsToFiles = Ok, AddLocalConfigPathToFiles = Ok,
      infraRun = Ok, updateFinished = None, finishedTime = 2\<rparr>
     \<lparr>UUID = ''u1'', Source = ''cron'', GitRef = ''abc123'', typeOf = ''micro'',
      clientDB = None, dirPath = [], prepared = False,
      configPath = ''config.yaml'', infraTags = Map.empty, ExtraVars = Map.empty\<rparr>
     \<lparr>table_rows = [], received = []\<rparr> =
   (Panic,
    \<lparr>UUID = ''u1'', Source = ''cron'', GitRef = ''abc123'', typeOf = ''micro'',
      clientDB = None, dirPath = [], prepared = False,
      configPath = ''config.yaml'', infraTags = Map.empty, ExtraVars = Map.empty\<rparr>,
    \<lparr>table_rows = [], received = []\<rparr>)"
  by (simp add: Execute_def Execute_body_def clientDB_Insert_def)

subsection \<open>Prepare\<close>

text \<open>
  Claim C10. When \<open>Prepare\<close> returns an error, the \<open>Exec\<close> is still not prepared.
  Nothing is undone: when the connection and the INSERT succeeded (so that the failure came
  from the directories or from the infrastructure), the row with status created is in the
  table. A later call of \<open>Prepare\<close> is no no-op: once it has its connection it sends the
  INSERT again.
\<close>

theorem Prepare_error:
  "Prepare env e db = (Some err, e', db') \<Longrightarrow>
     \<not> prepared e' \<and>
     (mysqlNew env = None \<and> insertCreated env = None \<longrightarrow>
        table_rows db' = table_rows db @
          [\<lparr>row_uuid = UUID e, row_status = StatusCreated, row_source = Source e,
            row_git_ref = GitRef e, row_type = typeOf e, started_at = None,
            finished_at = None\<rparr>]) \<and>
     (mysqlNew env2 = None \<longrightarrow>
        received (snd (snd (Prepare env2 e' db'))) =
          received db' @ [InsertExecution (UUID e) StatusCreated (Source e) (GitRef e) (typeOf e)])"
  apply (cases "insertCreated env"; cases "insertCreated env2")
     apply (auto simp: Prepare_def Let_def split: if_splits option.splits sum.splits prod.splits)
  done

text \<open>The infrastructure fails to prepare after the row was inserted.\<close>

theorem Prepare_error_witness:
  "fst (Prepare
     \<lparr>mysqlNew = None, insertCreated = None, ShortenSHA = take 7,
      prepareDirectories = Inr ''/tmp/u1'', infraPrepare = Some (Error ''no device''),
      ConfigFileUsed = ''config.yaml'', AddToAnsible = Map.empty\<rparr>
     \<lparr>UUID = ''u1'', Source = ''cron'', GitRef = ''abc123'', typeOf = ''micro'',
      clientDB = None, dirPath = [], prepared = False, configPath = [],
      infraTags = Map.empty, ExtraVars = Map.empty\<rparr>
     \<lparr>table_rows = [], received = []\<rparr>) = Some (Error ''no device'') \<and>
   \<not> prepared (fst (snd (Prepare
     \<lparr>mysqlNew = None, insertCreated = None, ShortenSHA = take 7,
      prepareDirectories = Inr ''/tmp/u1'', infraPrepare = Some (Error ''no device''),
      ConfigFileUsed = ''config.yaml'', AddToAnsible = Map.empty\<rparr>
     \<lparr>UUID = ''u1'', Source = ''cron'', GitRef = ''abc123'', typeOf = ''micro'',
      clientDB = None, dirPath = [], prepared = False, configPath = [],
      infraTags = Map.empty, ExtraVars = Map.empty\<rparr>
     \<lparr>table_rows = [], received = []\<rparr>))) \<and>
   table_rows (snd (snd (Prepare
     \<lparr>mysqlNew = None, insertCreated = None, ShortenSHA = take 7,
      prepareDirectories = Inr ''/tmp/u1'', infraPrepare = Some (Error ''no device''),
      ConfigFileUsed = ''config.yaml'', AddToAnsible = Map.empty\<rparr>
     \<lparr>UUID = ''u1'', Source = ''cron'', GitRef = ''abc123'', typeOf = ''micro'',
      clientDB = None, dirPath = [], prepared = False, configPath = [],
      infraTags = Map.empty, ExtraVars = Map.empty\<rparr>
     \<lparr>table_rows = [], received = []\<rparr>))) =
     [\<lparr>row_uuid = ''u1'', row_status = ''created'', row_source = ''cron'',
       row_git_ref = ''abc123'', row_type = ''micro'', started_at = None,
       finished_at = None\<rparr>]"
proof -
  let ?env = "\<lparr>mysqlNew = None, insertCreated = None, ShortenSHA = take 7,
      prepareDirectories = Inr ''/tmp/u1'', infraPrepare = Some (Error ''no device''),
      ConfigFileUsed = ''config.yaml'', AddToAnsible = Map.empty\<rparr>"
  let ?e = "\<lparr>UUID = ''u1'', Source = ''cron'', GitRef = ''abc123'', typeOf = ''micro'',
      clientDB = None, dirPath = [], prepared = False, configPath = [],
      infraTags = Map.empty, ExtraVars = Map.empty\<rparr>"
  let ?db = "\<lparr>table_rows = [], received = []\<rparr>"
  have run: "Prepare ?env ?e ?db =
      (Some (Error ''no device''), fst (snd (Prepare ?env ?e ?db)), snd (snd (Prepare ?env ?e ?db)))"
    by (simp add: Prepare_def)
  have err: "fst (Prepare ?env ?e ?db) = Some (Error ''no device'')"
    by (simp add: Prepare_def)
  from Prepare_error [OF run, of ?env] err show ?thesis
    by (simp add: StatusCreated_def)
qed

subsection \<open>checkIfExecutionExists\<close>

text \<open>
  Claim C8, as the code has it. For an identifier of type micro the check returns true
  exactly when the select succeeds and the table holds a row with status finished whose
  git reference, type and source are the identifier's; when the select fails it returns
  false with the error. The planner version and the pull request number of the
  identifier are not compared: changing them does not change the answer. For an
  identifier of another type the answer is that of \<^verbatim>\<open>ExistsMacrobenchmark\<close>, with
  false when it returns an error.
\<close>

theorem checkIfExecutionExists_micro:
  "(BenchmarkType ident = ''micro'' \<longrightarrow>
     checkIfExecutionExists macro sel db ident =
       (case sel StatusFinished of
          Some err \<Rightarrow> (False, Some err)
        | None \<Rightarrow>
           (\<exists>r \<in> set (table_rows db). row_status r = StatusFinished \<and>
               row_git_ref r = id_GitRef ident \<and> row_type r = BenchmarkType ident \<and>
               row_source r = id_Source ident, None)) \<and>
     checkIfExecutionExists macro sel db (ident\<lparr>PlannerVersion := p, PullNb := n\<rparr>) =
       checkIfExecutionExists macro sel db ident) \<and>
   (BenchmarkType ident \<noteq> ''micro'' \<longrightarrow>
     checkIfExecutionExists macro sel db ident =
       (case snd (macro db (id_GitRef ident) (id_Source ident) (BenchmarkType ident)
                    StatusFinished (PlannerVersion ident)) of
          Some err \<Rightarrow> (False, Some err)
        | None \<Rightarrow>
           (fst (macro db (id_GitRef ident) (id_Source ident) (BenchmarkType ident)
                   StatusFinished (PlannerVersion ident)), None)))"
  by (cases "sel StatusFinished";
      cases "macro db (id_GitRef ident) (id_Source ident) (BenchmarkType ident)
               StatusFinished (PlannerVersion ident)")
    (auto simp: checkIfExecutionExists_def Exists_def cursor_Next_def filter_empty_conv
      split: option.splits)

theorem checkIfExecutionExists_micro_witness:
  "checkIfExecutionExists (\<lambda>db gitRef source ty status planner. (False, None)) (\<lambda>status. None)
     \<lparr>table_rows = [\<lparr>row_uuid = ''u1'', row_status = StatusFinished, row_source = ''pr'',
                     row_git_ref = ''abc123'', row_type = ''micro'', started_at = Some 1,
                     finished_at = Some 2\<rparr>], received = []\<rparr>
     \<lparr>id_GitRef = ''abc123'', id_Source = ''pr'', BenchmarkType = ''micro'',
      PlannerVersion = ''Gen4'', PullNb = 7\<rparr> = (True, None)"
  using checkIfExecutionExists_micro [where
     ident = "\<lparr>id_GitRef = ''abc123'', id_Source = ''pr'', BenchmarkType = ''micro'',
      PlannerVersion = ''Gen4'', PullNb = 7\<rparr>"
     and macro = "(\<lambda>db gitRef source ty status planner. (False, None))"
     and sel = "\<lambda>status. None"
     and db = "\<lparr>table_rows = [\<lparr>row_uuid = ''u1'', row_status = StatusFinished, row_source = ''pr'',
                     row_git_ref = ''abc123'', row_type = ''micro'', started_at = Some 1,
                     finished_at = Some 2\<rparr>], received = []\<rparr>"
     and p = "''Gen4''" and n = 7]
  by (simp add: StatusFinished_def)

text \<open>
  As the specification states it, with every field of the identifier compared and no
  word on a failing select, the property fails in both directions. The table below holds
  one finished run,
  of \<open>pr\<close>, \<open>abc123\<close>, \<open>micro\<close>. When the select fails, the check returns false for the
  identifier of that very run. When the select succeeds, the check returns true for that
  identifier and also for one that differs from it in planner version and pull request
  number, which the one run cannot both match in every field.
\<close>

theorem checkIfExecutionExists_counterexample:
  "checkIfExecutionExists (\<lambda>db gitRef source ty status planner. (False, None))
     (\<lambda>status. Some (Error ''connection refused''))
     \<lparr>table_rows = [\<lparr>row_uuid = ''u1'', row_status = StatusFinished, row_source = ''pr'',
                     row_git_ref = ''abc123'', row_type = ''micro'', started_at = Some 1,
                     finished_at = Some 2\<rparr>], received = []\<rparr>
     \<lparr>id_GitRef = ''abc123'', id_Source = ''pr'', BenchmarkType = ''micro'',
      PlannerVersion = ''Gen4'', PullNb = 7\<rparr> = (False, Some (Error ''connection refused'')) \<and>
   checkIfExecutionExists (\<lambda>db gitRef source ty status planner. (False, None)) (\<lambda>status. None)
     \<lparr>table_rows = [\<lparr>row_uuid = ''u1'', row_status = StatusFinished, row_source = ''pr'',
                     row_git_ref = ''abc123'', row_type = ''micro'', started_at = Some 1,
                     finished_at = Some 2\<rparr>], received = []\<rparr>
     \<lparr>id_GitRef = ''abc123'', id_Source = ''pr'', BenchmarkType = ''micro'',
      PlannerVersion = ''Gen4'', PullNb = 7\<rparr> = (True, None) \<and>
   checkIfExecutionExists (\<lambda>db gitRef source ty status planner. (False, None)) (\<lambda>status. None)
     \<lparr>table_rows = [\<lparr>row_uuid = ''u1'', row_status = StatusFinished, row_source = ''pr'',
                     row_git_ref = ''abc123'', row_type = ''micro'', started_at = Some 1,
                     finished_at = Some 2\<rparr>], received = []\<rparr>
     \<lparr>id_GitRef = ''abc123'', id_Source = ''pr'', BenchmarkType = ''micro'',
      PlannerVersion = ''V3'', PullNb = 12\<rparr> = (True, None)"
  by (simp add: checkIfExecutionExists_def Exists_def cursor_Next_def)

subsection \<open>executeElement\<close>

lemma executeElement_exhausted:
  "retry (elements s element) < 0 \<Longrightarrow>
     executeElement envs n element s =
       (decrementNumberOfOnGoingExecution (removeIfFound element s), [])"
  by (subst executeElement.simps) simp

lemma executeElement_failed:
  "\<not> retry (elements s element) < 0 \<Longrightarrow>
   executeSingle (envs n) (config (elements s element))
     (elementIdentifier (elements s element)) = Some err \<Longrightarrow>
     executeElement envs n element s =
       (fst (executeElement envs (Suc n) element (decrementRetry element s)),
        ExecuteSingle (config (elements s element)) (elementIdentifier (elements s element)) #
          snd (executeElement envs (Suc n) element (decrementRetry element s)))"
  by (subst executeElement.simps) (simp add: case_prod_beta)

lemma executeElement_succeeded:
  "\<not> retry (elements s element) < 0 \<Longrightarrow>
   executeSingle (envs n) (config (elements s element))
     (elementIdentifier (elements s element)) = None \<Longrightarrow>
     executeElement envs n element s =
       (decrementNumberOfOnGoingExecution s,
        [ExecuteSingle (config (elements s element)) (elementIdentifier (elements s element)),
         GoCompare element])"
  by (subst executeElement.simps) simp

text \<open>With \<open>k\<close> attempts left (\<open>retry = k - 1\<close>) and every attempt failing, the call makes
  \<open>k\<close> attempts and ends in the branch for an exhausted budget.\<close>

lemma executeElement_always_failing:
  "retry (elements s element) = int k - 1 \<Longrightarrow>
   \<forall>j. executeSingle (envs j) (config (elements s element))
          (elementIdentifier (elements s element)) \<noteq> None \<Longrightarrow>
   executeElement envs n element s =
     (decrementNumberOfOnGoingExecution
        (removeIfFound element
           (s\<lparr>elements := (elements s)(element := (elements s element)\<lparr>retry := - 1\<rparr>)\<rparr>)),
      replicate k (ExecuteSingle (config (elements s element))
                     (elementIdentifier (elements s element))))"
proof (induction k arbitrary: s n)
  case 0
  then have neg: "retry (elements s element) < 0" and m1: "retry (elements s element) = - 1"
    by simp_all
  have same: "s\<lparr>elements := (elements s)(element := (elements s element)\<lparr>retry := - 1\<rparr>)\<rparr> = s"
    using m1 by (cases s) (auto simp: fun_eq_iff)
  show ?case
    unfolding same using executeElement_exhausted [OF neg] by simp
next
  case (Suc k)
  let ?s1 = "decrementRetry element s"
  from Suc.prems(1) have nonneg: "\<not> retry (elements s element) < 0" by simp
  from Suc.prems(2) obtain err where
    fails: "executeSingle (envs n) (config (elements s element))
              (elementIdentifier (elements s element)) = Some err"
    by (meson option.exhaust)
  have r1: "retry (elements ?s1 element) = int k - 1"
    using Suc.prems(1) by (simp add: decrementRetry_def)
  have cfg: "config (elements ?s1 element) = config (elements s element)"
    and idn: "elementIdentifier (elements ?s1 element) = elementIdentifier (elements s element)"
    by (simp_all add: decrementRetry_def)
  have f1: "\<forall>j. executeSingle (envs j) (config (elements ?s1 element))
                  (elementIdentifier (elements ?s1 element)) \<noteq> None"
    using Suc.prems(2) by (simp add: cfg idn)
  have same: "?s1\<lparr>elements := (elements ?s1)(element := (elements ?s1 element)\<lparr>retry := - 1\<rparr>)\<rparr>
      = s\<lparr>elements := (elements s)(element := (elements s element)\<lparr>retry := - 1\<rparr>)\<rparr>"
    by (simp add: decrementRetry_def)
  have ih: "executeElement envs (Suc n) element ?s1 =
     (decrementNumberOfOnGoingExecution
        (removeIfFound element
           (s\<lparr>elements := (elements s)(element := (elements s element)\<lparr>retry := - 1\<rparr>)\<rparr>)),
      replicate k (ExecuteSingle (config (elements s element))
                     (elementIdentifier (elements s element))))"
    using Suc.IH [OF r1 f1, of "Suc n"] by (simp only: cfg idn same)
  show ?case
    by (simp only: executeElement_failed [where s = s and element = element and envs = envs
          and n = n, OF nonneg fails] ih fst_conv snd_conv replicate_Suc)
qed

text \<open>
  Claim C3. An element handed to \<open>executeElement\<close> with retry budget \<open>N \<ge> 0\<close>, every
  attempt of which fails, is attempted exactly \<open>N + 1\<close> times, one call of
  \<open>executeSingle\<close> after the other and nothing else: no comparison is started. Afterwards
  its identifier is no longer in the queue (the rest of the queue is as before, and the
  element itself, with its budget at \<open>-1\<close>, was never put back), and the counter of running
  executions is one less.
\<close>

theorem executeElement_retries:
  "0 \<le> retry (elements s element) \<Longrightarrow>
   \<forall>j. executeSingle (envs j) (config (elements s element))
          (elementIdentifier (elements s element)) \<noteq> None \<Longrightarrow>
   executeElement envs n element s = (s', effects) \<Longrightarrow>
     effects = replicate (nat (retry (elements s element)) + 1)
                 (ExecuteSingle (config (elements s element))
                    (elementIdentifier (elements s element))) \<and>
     length effects = nat (retry (elements s element)) + 1 \<and>
     GoCompare element \<notin> set effects \<and>
     queue s' = (queue s)(elementIdentifier (elements s element) := None) \<and>
     currentCountExec s' = currentCountExec s - 1 \<and>
     elements s' = (elements s)(element := (elements s element)\<lparr>retry := - 1\<rparr>)"
proof -
  assume r: "0 \<le> retry (elements s element)"
    and f: "\<forall>j. executeSingle (envs j) (config (elements s element))
          (elementIdentifier (elements s element)) \<noteq> None"
    and run: "executeElement envs n element s = (s', effects)"
  from r have k: "retry (elements s element) = int (nat (retry (elements s element)) + 1) - 1"
    by simp
  from executeElement_always_failing [OF k f, of n] run
  have s': "s' = decrementNumberOfOnGoingExecution
        (removeIfFound element
           (s\<lparr>elements := (elements s)(element := (elements s element)\<lparr>retry := - 1\<rparr>)\<rparr>))"
    and fx: "effects = replicate (nat (retry (elements s element)) + 1)
                 (ExecuteSingle (config (elements s element))
                    (elementIdentifier (elements s element)))"
    by simp_all
  from s' have q: "queue s' = (queue s)(elementIdentifier (elements s element) := None)"
    by (auto simp: decrementNumberOfOnGoingExecution_def removeIfFound_def deleteFromQueue_def
        fun_eq_iff)
  from s' have c: "currentCountExec s' = currentCountExec s - 1"
    by (simp add: decrementNumberOfOnGoingExecution_def removeIfFound_def deleteFromQueue_def)
  from s' have e: "elements s' = (elements s)(element := (elements s element)\<lparr>retry := - 1\<rparr>)"
    by (simp add: decrementNumberOfOnGoingExecution_def removeIfFound_def deleteFromQueue_def)
  from fx q c e show ?thesis by simp
qed

text \<open>The scenario of the specification: source \<open>pr\<close>, reference \<open>abc123\<close>, type \<open>micro\<close>,
  retry budget 2, one execution running, every attempt failing in its execution step.\<close>

theorem executeElement_retries_witness:
  "length (snd (executeElement
     (\<lambda>k. \<lparr>NewExecWithConfig = None, callPrepare = None, callSetOutputToDefaultPath = None,
           callExecuteWithTimeout = Some (Error ''timeout''), callSuccess = None\<rparr>) 0 0
     \<lparr>elements = (\<lambda>r. \<lparr>config = ''config.yaml'', elementIdentifier = \<lparr>id_GitRef = ''abc123'', id_Source = ''pr'', BenchmarkType = ''micro'',
      PlannerVersion = ''Gen4'', PullNb = 7\<rparr>, retry = 2,
                        executing = True, compareWith = [], notifyAlways = False\<rparr>),
      queue = [\<lparr>id_GitRef = ''abc123'', id_Source = ''pr'', BenchmarkType = ''micro'',
      PlannerVersion = ''Gen4'', PullNb = 7\<rparr> \<mapsto> 0], currentCountExec = 1\<rparr>)) = 3 \<and>
   currentCountExec (fst (executeElement
     (\<lambda>k. \<lparr>NewExecWithConfig = None, callPrepare = None, callSetOutputToDefaultPath = None,
           callExecuteWithTimeout = Some (Error ''timeout''), callSuccess = None\<rparr>) 0 0
     \<lparr>elements = (\<lambda>r. \<lparr>config = ''config.yaml'', elementIdentifier = \<lparr>id_GitRef = ''abc123'', id_Source = ''pr'', BenchmarkType = ''micro'',
      PlannerVersion = ''Gen4'', PullNb = 7\<rparr>, retry = 2,
                        executing = True, compareWith = [], notifyAlways = False\<rparr>),
      queue = [\<lparr>id_GitRef = ''abc123'', id_Source = ''pr'', BenchmarkType = ''micro'',
      PlannerVersion = ''Gen4'', PullNb = 7\<rparr> \<mapsto> 0], currentCountExec = 1\<rparr>)) = 0 \<and>
   queue (fst (executeElement
     (\<lambda>k. \<lparr>NewExecWithConfig = None, callPrepare = None, callSetOutputToDefaultPath = None,
           callExecuteWithTimeout = Some (Error ''timeout''), callSuccess = None\<rparr>) 0 0
     \<lparr>elements = (\<lambda>r. \<lparr>config = ''config.yaml'', elementIdentifier = \<lparr>id_GitRef = ''abc123'', id_Source = ''pr'', BenchmarkType = ''micro'',
      PlannerVersion = ''Gen4'', PullNb = 7\<rparr>, retry = 2,
                        executing = True, compareWith = [], notifyAlways = False\<rparr>),
      queue = [\<lparr>id_GitRef = ''abc123'', id_Source = ''pr'', BenchmarkType = ''micro'',
      PlannerVersion = ''Gen4'', PullNb = 7\<rparr> \<mapsto> 0], currentCountExec = 1\<rparr>)) \<lparr>id_GitRef = ''abc123'', id_Source = ''pr'', BenchmarkType = ''micro'',
      PlannerVersion = ''Gen4'', PullNb = 7\<rparr> = None"
proof -
  let ?envs = "\<lambda>k::nat. \<lparr>NewExecWithConfig = None, callPrepare = None,
      callSetOutputToDefaultPath = None, callExecuteWithTimeout = Some (Error ''timeout''),
      callSuccess = None\<rparr>"
  let ?s = "\<lparr>elements = (\<lambda>r. \<lparr>config = ''config.yaml'', elementIdentifier = \<lparr>id_GitRef = ''abc123'', id_Source = ''pr'', BenchmarkType = ''micro'',
      PlannerVersion = ''Gen4'', PullNb = 7\<rparr>, retry = 2,
                        executing = True, compareWith = [], notifyAlways = False\<rparr>),
      queue = [\<lparr>id_GitRef = ''abc123'', id_Source = ''pr'', BenchmarkType = ''micro'',
      PlannerVersion = ''Gen4'', PullNb = 7\<rparr> \<mapsto> 0], currentCountExec = 1\<rparr>"
  have r: "0 \<le> retry (elements ?s 0)" by simp
  have f: "\<forall>j. executeSingle (?envs j) (config (elements ?s 0))
      (elementIdentifier (elements ?s 0)) \<noteq> None"
    by (simp add: executeSingle_def)
  have run: "executeElement ?envs 0 0 ?s =
      (fst (executeElement ?envs 0 0 ?s), snd (executeElement ?envs 0 0 ?s))"
    by simp
  from executeElement_retries [OF r f run] show ?thesis by simp
qed

subsection \<open>cronExecutionQueueWatcher\<close>

lemma firstNotExecuting_None:
  "firstNotExecuting s order = None \<Longrightarrow> k \<in> set order \<Longrightarrow> queue s k = Some element \<Longrightarrow>
     executing (elements s element)"
  by (induction order) (auto split: option.splits if_splits)

lemma firstNotExecuting_Some:
  "firstNotExecuting s order = Some element \<Longrightarrow>
     \<exists>k \<in> set order. queue s k = Some element \<and> \<not> executing (elements s element)"
  by (induction order) (auto split: option.splits if_splits)

text \<open>
  Claim C5. In one round of the watcher: when the counter is at or above \<open>maxConcurJob\<close>,
  the state is unchanged and nothing is dispatched. Below it, either every element the
  round visits is executing, and again nothing changes; or exactly one visited element
  that was not executing is dispatched: its flag \<open>executing\<close> becomes true, the counter
  grows by one, and the queue, every other element and every other field stay as they
  were.
\<close>

theorem cronExecutionQueueWatcher_tick:
  "(maxConcurJob \<le> currentCountExec s \<longrightarrow>
      cronExecutionQueueWatcher maxConcurJob order s = (s, None)) \<and>
   (currentCountExec s < maxConcurJob \<longrightarrow>
      (cronExecutionQueueWatcher maxConcurJob order s = (s, None) \<and>
       (\<forall>k \<in> set order. \<forall>element. queue s k = Some element \<longrightarrow> executing (elements s element))) \<or>
      (\<exists>k \<in> set order. \<exists>element. queue s k = Some element \<and> \<not> executing (elements s element) \<and>
         cronExecutionQueueWatcher maxConcurJob order s =
           (s\<lparr>currentCountExec := currentCountExec s + 1,
              elements := (elements s)(element := (elements s element)\<lparr>executing := True\<rparr>)\<rparr>,
            Some element)))"
proof (cases "firstNotExecuting s order")
  case None
  then show ?thesis
    using firstNotExecuting_None [OF None]
    by (auto simp: cronExecutionQueueWatcher_def)
next
  case (Some element)
  from firstNotExecuting_Some [OF Some] Some show ?thesis
    by (auto simp: cronExecutionQueueWatcher_def)
qed

text \<open>A queue of two elements, the first one visited already executing: with the counter
  at the ceiling nothing is dispatched, below it the second element is.\<close>

theorem cronExecutionQueueWatcher_tick_witness:
  "snd (cronExecutionQueueWatcher 1 [\<lparr>id_GitRef = ''abc123'', id_Source = ''pr'', BenchmarkType = ''micro'',
      PlannerVersion = ''Gen4'', PullNb = 7\<rparr>, \<lparr>id_GitRef = ''abc123'', id_Source = ''pr'', BenchmarkType = ''micro'',
      PlannerVersion = ''V3'', PullNb = 12\<rparr>]
     \<lparr>elements = (\<lambda>r. \<lparr>config = ''config.yaml'', elementIdentifier = (if r = 0 then \<lparr>id_GitRef = ''abc123'', id_Source = ''pr'', BenchmarkType = ''micro'',
      PlannerVersion = ''Gen4'', PullNb = 7\<rparr> else \<lparr>id_GitRef = ''abc123'', id_Source = ''pr'', BenchmarkType = ''micro'',
      PlannerVersion = ''V3'', PullNb = 12\<rparr>),
                        retry = 2, executing = (r = 0), compareWith = [], notifyAlways = False\<rparr>),
      queue = [\<lparr>id_GitRef = ''abc123'', id_Source = ''pr'', BenchmarkType = ''micro'',
      PlannerVersion = ''Gen4'', PullNb = 7\<rparr> \<mapsto> 0, \<lparr>id_GitRef = ''abc123'', id_Source = ''pr'', BenchmarkType = ''micro'',
      PlannerVersion = ''V3'', PullNb = 12\<rparr> \<mapsto> 1], currentCountExec = 1\<rparr>) = None \<and>
   snd (cronExecutionQueueWatcher 2 [\<lparr>id_GitRef = ''abc123'', id_Source = ''pr'', BenchmarkType = ''micro'',
      PlannerVersion = ''Gen4'', PullNb = 7\<rparr>, \<lparr>id_GitRef = ''abc123'', id_Source = ''pr'', BenchmarkType = ''micro'',
      PlannerVersion = ''V3'', PullNb = 12\<rparr>]
     \<lparr>elements = (\<lambda>r. \<lparr>config = ''config.yaml'', elementIdentifier = (if r = 0 then \<lparr>id_GitRef = ''abc123'', id_Source = ''pr'', BenchmarkType = ''micro'',
      PlannerVersion = ''Gen4'', PullNb = 7\<rparr> else \<lparr>id_GitRef = ''abc123'', id_Source = ''pr'', BenchmarkType = ''micro'',
      PlannerVersion = ''V3'', PullNb = 12\<rparr>),
                        retry = 2, executing = (r = 0), compareWith = [], notifyAlways = False\<rparr>),
      queue = [\<lparr>id_GitRef = ''abc123'', id_Source = ''pr'', BenchmarkType = ''micro'',
      PlannerVersion = ''Gen4'', PullNb = 7\<rparr> \<mapsto> 0, \<lparr>id_GitRef = ''abc123'', id_Source = ''pr'', BenchmarkType = ''micro'',
      PlannerVersion = ''V3'', PullNb = 12\<rparr> \<mapsto> 1], currentCountExec = 1\<rparr>) = Some 1 \<and>
   currentCountExec (fst (cronExecutionQueueWatcher 2 [\<lparr>id_GitRef = ''abc123'', id_Source = ''pr'', BenchmarkType = ''micro'',
      PlannerVersion = ''Gen4'', PullNb = 7\<rparr>, \<lparr>id_GitRef = ''abc123'', id_Source = ''pr'', BenchmarkType = ''micro'',
      PlannerVersion = ''V3'', PullNb = 12\<rparr>]
     \<lparr>elements = (\<lambda>r. \<lparr>config = ''config.yaml'', elementIdentifier = (if r = 0 then \<lparr>id_GitRef = ''abc123'', id_Source = ''pr'', BenchmarkType = ''micro'',
      PlannerVersion = ''Gen4'', PullNb = 7\<rparr> else \<lparr>id_GitRef = ''abc123'', id_Source = ''pr'', BenchmarkType = ''micro'',
      PlannerVersion = ''V3'', PullNb = 12\<rparr>),
                        retry = 2, executing = (r = 0), compareWith = [], notifyAlways = False\<rparr>),
      queue = [\<lparr>id_GitRef = ''abc123'', id_Source = ''pr'', BenchmarkType = ''micro'',
      PlannerVersion = ''Gen4'', PullNb = 7\<rparr> \<mapsto> 0, \<lparr>id_GitRef = ''abc123'', id_Source = ''pr'', BenchmarkType = ''micro'',
      PlannerVersion = ''V3'', PullNb = 12\<rparr> \<mapsto> 1], currentCountExec = 1\<rparr>)) = 2"
proof -
  let ?s = "\<lparr>elements = (\<lambda>r. \<lparr>config = ''config.yaml'',
        elementIdentifier = (if r = 0 then \<lparr>id_GitRef = ''abc123'', id_Source = ''pr'', BenchmarkType = ''micro'',
      PlannerVersion = ''Gen4'', PullNb = 7\<rparr> else \<lparr>id_GitRef = ''abc123'', id_Source = ''pr'', BenchmarkType = ''micro'',
      PlannerVersion = ''V3'', PullNb = 12\<rparr>),
        retry = 2, executing = (r = 0), compareWith = [], notifyAlways = False\<rparr>),
      queue = [\<lparr>id_GitRef = ''abc123'', id_Source = ''pr'', BenchmarkType = ''micro'',
      PlannerVersion = ''Gen4'', PullNb = 7\<rparr> \<mapsto> 0, \<lparr>id_GitRef = ''abc123'', id_Source = ''pr'', BenchmarkType = ''micro'',
      PlannerVersion = ''V3'', PullNb = 12\<rparr> \<mapsto> 1], currentCountExec = 1\<rparr>"
  have full: "(1::int) \<le> currentCountExec ?s" and room: "currentCountExec ?s < 2"
    by simp_all
  have busy: "executing (elements ?s 0)" and idle: "\<not> executing (elements ?s 1)"
    by simp_all
  from cronExecutionQueueWatcher_tick [of 1 ?s "[\<lparr>id_GitRef = ''abc123'', id_Source = ''pr'', BenchmarkType = ''micro'',
      PlannerVersion = ''Gen4'', PullNb = 7\<rparr>, \<lparr>id_GitRef = ''abc123'', id_Source = ''pr'', BenchmarkType = ''micro'',
      PlannerVersion = ''V3'', PullNb = 12\<rparr>]"] full
  have one: "cronExecutionQueueWatcher 1 [\<lparr>id_GitRef = ''abc123'', id_Source = ''pr'', BenchmarkType = ''micro'',
      PlannerVersion = ''Gen4'', PullNb = 7\<rparr>, \<lparr>id_GitRef = ''abc123'', id_Source = ''pr'', BenchmarkType = ''micro'',
      PlannerVersion = ''V3'', PullNb = 12\<rparr>] ?s = (?s, None)"
    by blast
  from cronExecutionQueueWatcher_tick [of 2 ?s "[\<lparr>id_GitRef = ''abc123'', id_Source = ''pr'', BenchmarkType = ''micro'',
      PlannerVersion = ''Gen4'', PullNb = 7\<rparr>, \<lparr>id_GitRef = ''abc123'', id_Source = ''pr'', BenchmarkType = ''micro'',
      PlannerVersion = ''V3'', PullNb = 12\<rparr>]"] room
  have two: "snd (cronExecutionQueueWatcher 2 [\<lparr>id_GitRef = ''abc123'', id_Source = ''pr'', BenchmarkType = ''micro'',
      PlannerVersion = ''Gen4'', PullNb = 7\<rparr>, \<lparr>id_GitRef = ''abc123'', id_Source = ''pr'', BenchmarkType = ''micro'',
      PlannerVersion = ''V3'', PullNb = 12\<rparr>] ?s) = Some 1 \<and>
      currentCountExec (fst (cronExecutionQueueWatcher 2 [\<lparr>id_GitRef = ''abc123'', id_Source = ''pr'', BenchmarkType = ''micro'',
      PlannerVersion = ''Gen4'', PullNb = 7\<rparr>, \<lparr>id_GitRef = ''abc123'', id_Source = ''pr'', BenchmarkType = ''micro'',
      PlannerVersion = ''V3'', PullNb = 12\<rparr>] ?s)) = 2"
    by (auto split: if_splits)
  from one two show ?thesis by simp
qed

subsection \<open>The counter of running executions\<close>

lemma size_remove_int:
  "x \<in># M \<Longrightarrow> int (size (M - {#x#})) = int (size M) - 1"
  by (induction M) (auto split: if_splits)

lemma size_filter_remove:
  "x \<in># G \<Longrightarrow> inFlight x \<Longrightarrow>
     int (size (filter_mset inFlight G - {#x#})) = int (size (filter_mset inFlight G)) - 1"
  by (rule size_remove_int) simp

lemma size_filter_remove_not:
  "\<not> inFlight x \<Longrightarrow> filter_mset inFlight G - {#x#} = filter_mset inFlight G"
  by (simp add: diff_single_trivial)

text \<open>The counter is the number of goroutines that the watcher started and that have not
  yet decremented it; every step keeps that, and keeps the counter below the ceiling.\<close>

lemma step_counter:
  assumes "step maxConcurJob (s, G) (s', G')"
    and "currentCountExec s = int (size (filter_mset inFlight G))"
    and "currentCountExec s \<le> maxConcurJob"
  shows "currentCountExec s' = int (size (filter_mset inFlight G')) \<and>
         currentCountExec s' \<le> maxConcurJob"
  using assms
proof (cases rule: step.cases)
  case (watcher_idle order)
  with assms show ?thesis
    by (auto simp: cronExecutionQueueWatcher_def split: if_splits option.splits)
next
  case (watcher_dispatch order element)
  with assms show ?thesis
    by (auto simp: cronExecutionQueueWatcher_def split: if_splits option.splits)
next
  case (retries_exhausted element)
  with assms show ?thesis
    by (simp add: removeIfFound_def deleteFromQueue_def size_filter_remove)
next
  case (attempt_failed element env err)
  with assms show ?thesis by (simp add: decrementRetry_def)
next
  case (attempt_succeeded element env)
  with assms show ?thesis by (simp add: size_filter_remove)
next
  case decrement
  with assms show ?thesis
    by (simp add: decrementNumberOfOnGoingExecution_def size_filter_remove)
next
  case (compared element)
  with assms show ?thesis
    by (simp add: deleteFromQueue_def size_filter_remove_not)
qed

lemma reachable_counter:
  assumes "(step maxConcurJob)\<^sup>*\<^sup>* c c'"
    and "currentCountExec (fst c) = int (size (filter_mset inFlight (snd c)))"
    and "currentCountExec (fst c) \<le> maxConcurJob"
  shows "currentCountExec (fst c') = int (size (filter_mset inFlight (snd c'))) \<and>
         currentCountExec (fst c') \<le> maxConcurJob"
  using assms
proof (induction rule: rtranclp_induct)
  case base
  then show ?case by simp
next
  case (step y z)
  then show ?case
    using step_counter [of maxConcurJob "fst y" "snd y" "fst z" "snd z"] by simp
qed

text \<open>A call of \<open>executeElement\<close> that nothing interleaves with is one run of the
  goroutine the watcher started: it ends in the state the function computes, with the
  comparing goroutine started exactly when the function says so.\<close>

lemma executeElement_is_a_run:
  "(step maxConcurJob)\<^sup>*\<^sup>* (s, add_mset (AtExecuteElement element) G)
     (fst (executeElement envs n element s),
      if GoCompare element \<in> set (snd (executeElement envs n element s))
      then add_mset (AtCompareElement element) G else G)"
proof (induction envs n element s rule: executeElement.induct)
  case (1 envs n element s)
  let ?G = "add_mset (AtExecuteElement element) G"
  show ?case
  proof (cases "retry (elements s element) < 0")
    case True
    have "step maxConcurJob (s, ?G)
            (removeIfFound element s, add_mset AtDecrement (?G - {#AtExecuteElement element#}))"
      by (rule step.retries_exhausted) (simp_all add: True)
    then have a: "step maxConcurJob (s, ?G) (removeIfFound element s, add_mset AtDecrement G)"
      by simp
    have "step maxConcurJob (removeIfFound element s, add_mset AtDecrement G)
            (decrementNumberOfOnGoingExecution (removeIfFound element s),
             add_mset AtDecrement G - {#AtDecrement#})"
      by (rule step.decrement) simp
    then have b: "step maxConcurJob (removeIfFound element s, add_mset AtDecrement G)
            (decrementNumberOfOnGoingExecution (removeIfFound element s), G)"
      by simp
    from a b have "(step maxConcurJob)\<^sup>*\<^sup>* (s, ?G)
        (decrementNumberOfOnGoingExecution (removeIfFound element s), G)"
      by (meson r_into_rtranclp rtranclp_trans)
    then show ?thesis
      by (simp add: executeElement_exhausted [OF True])
  next
    case False
    show ?thesis
    proof (cases "executeSingle (envs n) (config (elements s element))
                    (elementIdentifier (elements s element))")
      case None
      have "step maxConcurJob (s, ?G)
              (s, add_mset AtDecrement (add_mset (AtCompareElement element)
                    (?G - {#AtExecuteElement element#})))"
        by (rule step.attempt_succeeded [where env = "envs n"]) (simp_all add: False None)
      then have a: "step maxConcurJob (s, ?G)
              (s, add_mset AtDecrement (add_mset (AtCompareElement element) G))"
        by simp
      have "step maxConcurJob (s, add_mset AtDecrement (add_mset (AtCompareElement element) G))
              (decrementNumberOfOnGoingExecution s,
               add_mset AtDecrement (add_mset (AtCompareElement element) G) - {#AtDecrement#})"
        by (rule step.decrement) simp
      then have b: "step maxConcurJob
              (s, add_mset AtDecrement (add_mset (AtCompareElement element) G))
              (decrementNumberOfOnGoingExecution s, add_mset (AtCompareElement element) G)"
        by simp
      from a b have "(step maxConcurJob)\<^sup>*\<^sup>* (s, ?G)
          (decrementNumberOfOnGoingExecution s, add_mset (AtCompareElement element) G)"
        by (meson r_into_rtranclp rtranclp_trans)
      then show ?thesis
        by (simp add: executeElement_succeeded [where envs = envs and n = n, OF False None])
    next
      case (Some err)
      have a: "step maxConcurJob (s, ?G) (decrementRetry element s, ?G)"
        by (rule step.attempt_failed [where env = "envs n" and err = err])
          (simp_all add: False Some)
      from "1.IH" [OF False Some] a
      have "(step maxConcurJob)\<^sup>*\<^sup>* (s, ?G)
          (fst (executeElement envs (Suc n) element (decrementRetry element s)),
           if GoCompare element
                \<in> set (snd (executeElement envs (Suc n) element (decrementRetry element s)))
           then add_mset (AtCompareElement element) G else G)"
        by (meson converse_rtranclp_into_rtranclp)
      then show ?thesis
        by (simp add: executeElement_failed [where envs = envs and n = n, OF False Some])
    qed
  qed
qed

text \<open>
  Claim C4. From a start with no execution running (the counter at 0, no goroutine) and a
  ceiling that is not negative, every state reached by rounds of the watcher and steps of
  the goroutines it started (failed attempts and retries, exhausted budgets, successes,
  decrements, ends of comparisons), in any order, has
  \<open>0 \<le> currentCountExec \<le> maxConcurJob\<close>.
\<close>

theorem currentCountExec_bounds:
  "0 \<le> maxConcurJob \<Longrightarrow> currentCountExec s0 = 0 \<Longrightarrow>
   (step maxConcurJob)\<^sup>*\<^sup>* (s0, {#}) (s, G) \<Longrightarrow>
     0 \<le> currentCountExec s \<and> currentCountExec s \<le> maxConcurJob"
  using reachable_counter [of maxConcurJob "(s0, {#})" "(s, G)"] by simp

text \<open>Under the ceiling 1, one element with no retry left is dispatched, its attempt
  fails, it is removed from the queue and the counter is decremented: four steps, after
  which the counter is back within its bounds at 0.\<close>

theorem currentCountExec_bounds_witness:
  "(step 1)\<^sup>*\<^sup>*
     (\<lparr>elements = (\<lambda>r. \<lparr>config = ''config.yaml'',
          elementIdentifier = \<lparr>id_GitRef = ''abc123'', id_Source = ''pr'', BenchmarkType = ''micro'',
            PlannerVersion = ''Gen4'', PullNb = 7\<rparr>, retry = 0,
          executing = False, compareWith = [], notifyAlways = False\<rparr>),
       queue = [\<lparr>id_GitRef = ''abc123'', id_Source = ''pr'', BenchmarkType = ''micro'',
            PlannerVersion = ''Gen4'', PullNb = 7\<rparr> \<mapsto> 0], currentCountExec = 0\<rparr>, {#})
     (decrementNumberOfOnGoingExecution (removeIfFound 0 (decrementRetry 0
        (fst (cronExecutionQueueWatcher 1
           [\<lparr>id_GitRef = ''abc123'', id_Source = ''pr'', BenchmarkType = ''micro'',
             PlannerVersion = ''Gen4'', PullNb = 7\<rparr>]
           \<lparr>elements = (\<lambda>r. \<lparr>config = ''config.yaml'',
              elementIdentifier = \<lparr>id_GitRef = ''abc123'', id_Source = ''pr'',
                BenchmarkType = ''micro'', PlannerVersion = ''Gen4'', PullNb = 7\<rparr>, retry = 0,
              executing = False, compareWith = [], notifyAlways = False\<rparr>),
            queue = [\<lparr>id_GitRef = ''abc123'', id_Source = ''pr'', BenchmarkType = ''micro'',
              PlannerVersion = ''Gen4'', PullNb = 7\<rparr> \<mapsto> 0], currentCountExec = 0\<rparr>)))), {#}) \<and>
   currentCountExec
     (decrementNumberOfOnGoingExecution (removeIfFound 0 (decrementRetry 0
        (fst (cronExecutionQueueWatcher 1
           [\<lparr>id_GitRef = ''abc123'', id_Source = ''pr'', BenchmarkType = ''micro'',
             PlannerVersion = ''Gen4'', PullNb = 7\<rparr>]
           \<lparr>elements = (\<lambda>r. \<lparr>config = ''config.yaml'',
              elementIdentifier = \<lparr>id_GitRef = ''abc123'', id_Source = ''pr'',
                BenchmarkType = ''micro'', PlannerVersion = ''Gen4'', PullNb = 7\<rparr>, retry = 0,
              executing = False, compareWith = [], notifyAlways = False\<rparr>),
            queue = [\<lparr>id_GitRef = ''abc123'', id_Source = ''pr'', BenchmarkType = ''micro'',
              PlannerVersion = ''Gen4'', PullNb = 7\<rparr> \<mapsto> 0], currentCountExec = 0\<rparr>))))) \<in> {0..1}"
proof -
  let ?A = "\<lparr>id_GitRef = ''abc123'', id_Source = ''pr'', BenchmarkType = ''micro'',
            PlannerVersion = ''Gen4'', PullNb = 7\<rparr>"
  let ?s0 = "\<lparr>elements = (\<lambda>r. \<lparr>config = ''config.yaml'', elementIdentifier = ?A, retry = 0,
          executing = False, compareWith = [], notifyAlways = False\<rparr>),
       queue = [?A \<mapsto> 0], currentCountExec = 0\<rparr>"
  let ?s1 = "fst (cronExecutionQueueWatcher 1 [?A] ?s0)"
  let ?s2 = "decrementRetry 0 ?s1"
  let ?s3 = "removeIfFound 0 ?s2"
  let ?s4 = "decrementNumberOfOnGoingExecution ?s3"
  let ?env = "\<lparr>NewExecWithConfig = None, callPrepare = None, callSetOutputToDefaultPath = None,
           callExecuteWithTimeout = Some (Error ''timeout''), callSuccess = None\<rparr>"
  have tick: "cronExecutionQueueWatcher 1 [?A] ?s0 = (?s1, Some 0)"
    by (simp add: cronExecutionQueueWatcher_def)
  have keys: "set [?A] = dom (queue ?s0)"
    by simp
  have "step 1 (?s0, {#}) (?s1, add_mset (AtExecuteElement 0) {#})"
    by (rule step.watcher_dispatch [OF tick keys])
  then have a: "step 1 (?s0, {#}) (?s1, {#AtExecuteElement 0#})"
    by simp
  have r1: "retry (elements ?s1 0) = 0"
    by (simp add: cronExecutionQueueWatcher_def)
  have b: "step 1 (?s1, {#AtExecuteElement 0#}) (?s2, {#AtExecuteElement 0#})"
    by (rule step.attempt_failed [where env = ?env and err = "Error ''execution step error: timeout''"])
      (simp_all add: r1 executeSingle_def)
  have r2: "retry (elements ?s2 0) < 0"
    by (simp add: decrementRetry_def r1)
  have "step 1 (?s2, {#AtExecuteElement 0#})
          (?s3, add_mset AtDecrement ({#AtExecuteElement 0#} - {#AtExecuteElement 0#}))"
    by (rule step.retries_exhausted) (simp_all add: r2)
  then have c: "step 1 (?s2, {#AtExecuteElement 0#}) (?s3, {#AtDecrement#})"
    by simp
  have "step 1 (?s3, {#AtDecrement#}) (?s4, {#AtDecrement#} - {#AtDecrement#})"
    by (rule step.decrement) simp
  then have d: "step 1 (?s3, {#AtDecrement#}) (?s4, {#})"
    by simp
  from a b c d have reach: "(step 1)\<^sup>*\<^sup>* (?s0, {#}) (?s4, {#})"
    by (meson rtranclp.rtrancl_into_rtrancl rtranclp.rtrancl_refl)
  have ceiling: "(0::int) \<le> 1" and start: "currentCountExec ?s0 = 0"
    by simp_all
  from currentCountExec_bounds [OF ceiling start reach] reach show ?thesis
    by simp
qed

subsection \<open>compareElement\<close>

text \<open>The loop has no bound of its own: while no target has a finished execution and no
  error occurs, \<open>compareElement\<close> has not returned, however many rounds it has polled.\<close>

lemma compareRound_none_found:
  "\<forall>c \<in> set targets. GetFinishedExecution env t c = Inr [] \<Longrightarrow>
     compareRound env t element targets done sent = Inr (done, sent)"
  by (induction targets) simp_all

lemma compareLoop_none_found:
  "compareWith element \<noteq> [] \<Longrightarrow>
   \<forall>t. \<forall>c \<in> set (compareWith element). GetFinishedExecution env t c = Inr [] \<Longrightarrow>
     compareLoop env rounds t element 0 sent = None"
  by (induction rounds arbitrary: t) (simp_all add: compareRound_none_found)

lemma compareElement_no_timeout:
  "compareWith element \<noteq> [] \<Longrightarrow>
   \<forall>t. \<forall>c \<in> set (compareWith element). GetFinishedExecution env t c = Inr [] \<Longrightarrow>
     compareElement env rounds element = None"
  by (simp add: compareElement_def compareLoop_none_found)

text \<open>
  Claim C2 fails on the code. The element below is compared with two targets; the first
  (\<open>abc123\<close>) has a finished execution from the first round of polling on, the second
  (\<open>def456\<close>) never has one. \<open>compareElement\<close> counts the first target again in the second
  round: it sends the notification for the pair (\<open>0a1b2c\<close>, \<open>abc123\<close>) twice.
\<close>

theorem compareElement_notifies_twice:
  "compareElement
     \<lparr>GetFinishedExecution =
        (\<lambda>t comparer. if id_GitRef comparer = ''abc123'' then Inr ''uuid-a'' else Inr []),
      sendNotification = (\<lambda>t n. None)\<rparr>
     2
     \<lparr>config = ''config.yaml'',
      elementIdentifier = \<lparr>id_GitRef = ''0a1b2c'', id_Source = ''pr'', BenchmarkType = ''micro'',
                            PlannerVersion = ''Gen4'', PullNb = 7\<rparr>,
      retry = 2, executing = True,
      compareWith = [\<lparr>id_GitRef = ''abc123'', id_Source = ''pr'', BenchmarkType = ''micro'',
                       PlannerVersion = ''Gen4'', PullNb = 7\<rparr>,
                     \<lparr>id_GitRef = ''def456'', id_Source = ''pr'', BenchmarkType = ''micro'',
                       PlannerVersion = ''Gen4'', PullNb = 7\<rparr>],
      notifyAlways = False\<rparr> =
   Some (LoopEnded,
     [Notification ''pr'' ''pr'' ''0a1b2c'' ''abc123'' ''Gen4'' ''micro'' 7 False,
      Notification ''pr'' ''pr'' ''0a1b2c'' ''abc123'' ''Gen4'' ''micro'' 7 False])"
  by (simp add: compareElement_def notificationFor_def eval_nat_numeral)

text \<open>
  Claim C6 fails on the code, in both directions. With the two targets above, the loop
  ends after the second round although \<open>def456\<close> has never been matched: the counter has
  reached the number of targets by counting \<open>abc123\<close> twice. With three targets, of which
  \<open>abc123\<close> and \<open>def456\<close> are matched from the first round on and \<open>fed789\<close> from the second
  on, every target has been matched after two rounds, but the counter has stepped over 3
  (2, then 5, then 8, ...) and the loop is still polling after 8 rounds.
\<close>

theorem compareElement_end_not_all_matched:
  "map_option fst (compareElement
     \<lparr>GetFinishedExecution =
        (\<lambda>t comparer. if id_GitRef comparer = ''abc123'' then Inr ''uuid-a'' else Inr []),
      sendNotification = (\<lambda>t n. None)\<rparr>
     2
     \<lparr>config = ''config.yaml'',
      elementIdentifier = \<lparr>id_GitRef = ''0a1b2c'', id_Source = ''pr'', BenchmarkType = ''micro'',
                            PlannerVersion = ''Gen4'', PullNb = 7\<rparr>,
      retry = 2, executing = True,
      compareWith = [\<lparr>id_GitRef = ''abc123'', id_Source = ''pr'', BenchmarkType = ''micro'',
                       PlannerVersion = ''Gen4'', PullNb = 7\<rparr>,
                     \<lparr>id_GitRef = ''def456'', id_Source = ''pr'', BenchmarkType = ''micro'',
                       PlannerVersion = ''Gen4'', PullNb = 7\<rparr>],
      notifyAlways = False\<rparr>) = Some LoopEnded \<and>
   compareElement
     \<lparr>GetFinishedExecution =
        (\<lambda>t comparer. if id_GitRef comparer = ''fed789'' \<and> t = 0 then Inr [] else Inr ''uuid''),
      sendNotification = (\<lambda>t n. None)\<rparr>
     8
     \<lparr>config = ''config.yaml'',
      elementIdentifier = \<lparr>id_GitRef = ''0a1b2c'', id_Source = ''pr'', BenchmarkType = ''micro'',
                            PlannerVersion = ''Gen4'', PullNb = 7\<rparr>,
      retry = 2, executing = True,
      compareWith = [\<lparr>id_GitRef = ''abc123'', id_Source = ''pr'', BenchmarkType = ''micro'',
                       PlannerVersion = ''Gen4'', PullNb = 7\<rparr>,
                     \<lparr>id_GitRef = ''def456'', id_Source = ''pr'', BenchmarkType = ''micro'',
                       PlannerVersion = ''Gen4'', PullNb = 7\<rparr>,
                     \<lparr>id_GitRef = ''fed789'', id_Source = ''pr'', BenchmarkType = ''micro'',
                       PlannerVersion = ''Gen4'', PullNb = 7\<rparr>],
      notifyAlways = False\<rparr> = None"
  by (simp add: compareElement_def notificationFor_def eval_nat_numeral)

end
